theory Spec2Isabelle
  imports Main "HOL-Library.AList" "HOL-Library.Multiset"
begin

section \<open>Session dispatcher: \<^verbatim>\<open>lib/vscode/src/vs/server/node/server.ts\<close>\<close>

subsection \<open>Data\<close>

text \<open>
  The connection types of a handshake. \<open>UnknownType\<close> stands for any value outside the
  enumeration, which reaches the \<^verbatim>\<open>default\<close> branch of the \<^verbatim>\<open>switch\<close> in \<^verbatim>\<open>connect\<close>.
\<close>

datatype ConnectionType = Management | ExtensionHost | Tunnel | UnknownType

text \<open>
  The handshake message. \<open>args\<close> is the optional \<^verbatim>\<open>args\<close> object with its optional
  \<^verbatim>\<open>language\<close> member.
\<close>

record ConnectionTypeRequest =
  desiredConnectionType :: ConnectionType
  commit :: "string option"
  args :: "string option option"

text \<open>
  The protocol object of one socket: the two options \<^verbatim>\<open>connect\<close> reads, the identity of
  the socket and the bytes \<^verbatim>\<open>readEntireBuffer()\<close> returns.
\<close>

record Protocol =
  reconnectionToken :: string
  reconnection :: bool
  socket :: nat
  entireBuffer :: string

text \<open>
  Modelled from the spec: the \<^verbatim>\<open>Connection\<close> class (\<^verbatim>\<open>vs/server/node/connection\<close> is not
  among the sources). A connection has its token, its flavour, the \<^verbatim>\<open>offline\<close> marker
  (the time of the last disconnection, absent while a socket is bound) and, for an
  extension host, the language it was constructed with. A connection is constructed
  online, and \<^verbatim>\<open>reconnect\<close> clears the marker.
\<close>

record Connection =
  token :: string
  flavour :: ConnectionType
  language :: "string option"
  offline :: "nat option"

definition ManagementConnection :: "string \<Rightarrow> Connection" where
  "ManagementConnection tok =
     \<lparr>token = tok, flavour = Management, language = None, offline = None\<rparr>"

definition ExtensionHostConnection :: "string option \<Rightarrow> string \<Rightarrow> Connection" where
  "ExtensionHostConnection lang tok =
     \<lparr>token = tok, flavour = ExtensionHost, language = lang, offline = None\<rparr>"

definition reconnect :: "Connection \<Rightarrow> Connection" where
  "reconnect c = c\<lparr>offline := None\<rparr>"

text \<open>
  The errors \<^verbatim>\<open>connect\<close> and \<^verbatim>\<open>handleWebSocket\<close> throw, with the message each carries.
\<close>

datatype handshake_error =
    UnrecognizedToken
  | DuplicateToken
  | UnrecognizedConnectionType
  | MissingToken

fun error_message :: "handshake_error \<Rightarrow> string" where
  "error_message UnrecognizedToken = ''Unrecognized reconnection token''"
| "error_message DuplicateToken = ''Duplicate reconnection token''"
| "error_message UnrecognizedConnectionType = ''Unrecognized connection type''"
| "error_message MissingToken = ''Reconnection token is missing from query parameters''"

datatype handshake_message =
    OkMessage
  | DebugPortMessage "nat option"
  | ErrorMessage string

text \<open>
  What the dispatcher does to its collaborators, in the order it does it. A connection
  is named by its token.
\<close>

datatype dispatch_effect =
    LogWarnVersionMismatch "string option" string
  | LogDebugNewConnection string
  | LogDebugDisposing string
  | LogDebugClosed string
  | SendMessage handshake_message
  | ReadEntireBuffer
  | ProtocolDispose
  | SocketDispose
  | ConnectionReconnect string nat string
  | FireDidClientConnect string
  | ConnectionDispose string
  | ProtocolTunnel

text \<open>
  The inner \<^verbatim>\<open>Map<string, Connection>\<close> is an association list in insertion order (the
  order \<^verbatim>\<open>Map.values()\<close> iterates in); \<^verbatim>\<open>Map.set\<close> is \<^const>\<open>AList.update\<close>, which
  replaces in place or appends. The outer map is keyed by connection type.
\<close>

type_synonym connection_table = "(string \<times> Connection) list"

record Vscode =
  connections :: "ConnectionType \<rightharpoonup> connection_table"

definition maxExtraOfflineConnections :: nat where
  "maxExtraOfflineConnections = 0"

definition new_Vscode :: Vscode where
  "new_Vscode = \<lparr>connections = Map.empty\<rparr>"

definition has :: "connection_table \<Rightarrow> string \<Rightarrow> bool" where
  "has conns tok = (map_of conns tok \<noteq> None)"

definition registered :: "Vscode \<Rightarrow> ConnectionType \<Rightarrow> connection_table" where
  "registered s t = (case connections s t of None \<Rightarrow> [] | Some conns \<Rightarrow> conns)"

subsection \<open>Operations\<close>

text \<open>\<^verbatim>\<open>getDebugPort\<close> is unimplemented in the source and returns \<^verbatim>\<open>undefined\<close>.\<close>

definition getDebugPort :: "nat option" where
  "getDebugPort = None"

definition ok :: "ConnectionType \<Rightarrow> handshake_message" where
  "ok t = (if t = ExtensionHost then DebugPortMessage getDebugPort else OkMessage)"

text \<open>
  The loop of \<^verbatim>\<open>disposeOldOfflineConnections\<close>:
  \<^verbatim>\<open>for (let i = 0, max = offline.length - this.maxExtraOfflineConnections; i < max; ++i)\<close>.
  Each round logs and disposes \<^verbatim>\<open>offline[i]\<close>. The bound is the length minus a
  natural number, so the index stays in range.
\<close>

function dispose_loop :: "nat \<Rightarrow> int \<Rightarrow> Connection list \<Rightarrow> dispatch_effect list" where
  "dispose_loop i mx offl =
     (if int i < mx
      then [LogDebugDisposing (token (offl ! i)), ConnectionDispose (token (offl ! i))]
             @ dispose_loop (Suc i) mx offl
      else [])"
  by pat_completeness auto
termination
  by (relation "measure (\<lambda>(i, mx, offl). nat (mx - int i))") auto

definition offline_connections :: "connection_table \<Rightarrow> Connection list" where
  "offline_connections conns = filter (\<lambda>c. offline c \<noteq> None) (map snd conns)"

definition disposeOldOfflineConnections :: "connection_table \<Rightarrow> dispatch_effect list" where
  "disposeOldOfflineConnections conns =
     (let offl = offline_connections conns
      in dispose_loop 0 (int (length offl) - int maxExtraOfflineConnections) offl)"

text \<open>
  \<^verbatim>\<open>connect\<close>. The result is the thrown error or normal completion, the effects up to that
  point, and the dispatcher afterwards. \<open>product_commit\<close> is \<^verbatim>\<open>product.commit\<close>.
  What \<^verbatim>\<open>dispose()\<close> does inside a connection is not in the sources: the call is
  recorded as an effect, and the close listener registered at registration is the
  transition \<open>onClose\<close> below, so the table returned is the one the disposal loop
  was given, before any close listener has run. \<open>new_connection\<close> is the choice between the two
  constructors, with the language \<^verbatim>\<open>message.args ? message.args.language : 'en'\<close>.
\<close>

definition version_warning :: "string option \<Rightarrow> ConnectionTypeRequest \<Rightarrow> dispatch_effect list" where
  "version_warning product_commit message =
     (case product_commit of
        None \<Rightarrow> []
      | Some c \<Rightarrow> if c \<noteq> [] \<and> commit message \<noteq> Some c
                  then [LogWarnVersionMismatch (commit message) c] else [])"

definition is_session_type :: "ConnectionType \<Rightarrow> bool" where
  "is_session_type t = (t = ExtensionHost \<or> t = Management)"

definition new_connection :: "ConnectionTypeRequest \<Rightarrow> Protocol \<Rightarrow> Connection" where
  "new_connection message protocol =
     (if desiredConnectionType message = Management
      then ManagementConnection (reconnectionToken protocol)
      else ExtensionHostConnection (case args message of Some a \<Rightarrow> a | None \<Rightarrow> Some ''en'')
             (reconnectionToken protocol))"

definition connect ::
  "string option \<Rightarrow> ConnectionTypeRequest \<Rightarrow> Protocol \<Rightarrow> Vscode
     \<Rightarrow> (handshake_error + unit) \<times> dispatch_effect list \<times> Vscode" where
  "connect product_commit message protocol s =
     (let warn = version_warning product_commit message;
          t = desiredConnectionType message
      in if is_session_type t then
           (let conns = registered s t;
                s1 = s\<lparr>connections := (connections s)(t \<mapsto> conns)\<rparr>;
                tok = reconnectionToken protocol
            in if reconnection protocol \<and> has conns tok then
                 (Inr (),
                  warn @ [SendMessage (ok t), ReadEntireBuffer, ProtocolDispose,
                          ConnectionReconnect tok (socket protocol) (entireBuffer protocol)],
                  s1\<lparr>connections := (connections s1)
                        (t \<mapsto> map (\<lambda>(k, c). if k = tok then (k, reconnect c) else (k, c)) conns)\<rparr>)
               else if reconnection protocol \<or> has conns tok then
                 (Inl (if reconnection protocol then UnrecognizedToken else DuplicateToken),
                  warn, s1)
               else
                 (let connection = new_connection message protocol;
                      made =
                        (if t = Management then [FireDidClientConnect tok]
                         else [ReadEntireBuffer]);
                      conns' = AList.update tok connection conns
                  in (Inr (),
                      warn @ [LogDebugNewConnection tok, SendMessage (ok t)] @ made
                        @ disposeOldOfflineConnections conns',
                      s1\<lparr>connections := (connections s1)(t \<mapsto> conns')\<rparr>)))
         else if t = Tunnel then (Inr (), warn @ [ProtocolTunnel], s)
         else (Inl UnrecognizedConnectionType, warn, s))"

text \<open>The close listener registered for a new connection: log, then delete the token.\<close>

definition onClose :: "ConnectionType \<Rightarrow> string \<Rightarrow> Vscode \<Rightarrow> dispatch_effect list \<times> Vscode" where
  "onClose t tok s =
     ([LogDebugClosed tok],
      (case connections s t of
         None \<Rightarrow> s
       | Some conns \<Rightarrow> s\<lparr>connections := (connections s)(t \<mapsto> AList.delete tok conns)\<rparr>))"

text \<open>
  \<^verbatim>\<open>handleWebSocket\<close>, with the message the handshake has produced. \<open>query_token\<close> is
  \<^verbatim>\<open>query.reconnectionToken\<close>: when it is missing or empty the call throws before a
  protocol exists. An error of \<^verbatim>\<open>connect\<close> is caught, sent to the client, and the
  protocol and its socket are disposed; the call then resolves to \<^verbatim>\<open>true\<close>.
\<close>

definition handleWebSocket ::
  "string option \<Rightarrow> string option \<Rightarrow> ConnectionTypeRequest \<Rightarrow> Protocol \<Rightarrow> Vscode
     \<Rightarrow> (handshake_error + bool) \<times> dispatch_effect list \<times> Vscode" where
  "handleWebSocket product_commit query_token message protocol s =
     (if query_token = None \<or> query_token = Some [] then (Inl MissingToken, [], s)
      else (case connect product_commit message protocol s of
              (Inr _, effs, s') \<Rightarrow> (Inr True, effs, s')
            | (Inl e, effs, s') \<Rightarrow>
                (Inr True,
                 effs @ [SendMessage (ErrorMessage (error_message e)), ProtocolDispose,
                         SocketDispose],
                 s')))"

text \<open>What the disposal loop does with one connection.\<close>

definition dispose_one :: "Connection \<Rightarrow> dispatch_effect list" where
  "dispose_one c = [LogDebugDisposing (token c), ConnectionDispose (token c)]"

text \<open>
  The retention rule as the specification words it: the offline connections sorted
  oldest first by the time of disconnection, all but the newest \<open>keep\<close> disposed.
\<close>

definition offline_time :: "Connection \<Rightarrow> nat" where
  "offline_time c = (case offline c of None \<Rightarrow> 0 | Some t \<Rightarrow> t)"

definition disposeOldOfflineConnections_spec :: "nat \<Rightarrow> connection_table \<Rightarrow> dispatch_effect list" where
  "disposeOldOfflineConnections_spec keep conns =
     (let offl = sort_key offline_time (offline_connections conns)
      in concat (map dispose_one (take (length offl - keep) offl)))"

text \<open>The tokens on which \<^verbatim>\<open>dispose()\<close> is called, in order.\<close>

definition disposed :: "dispatch_effect list \<Rightarrow> string list" where
  "disposed effs = concat (map (\<lambda>e. case e of ConnectionDispose tok \<Rightarrow> [tok] | _ \<Rightarrow> []) effs)"

text \<open>
  Modelled from the spec: what the \<^verbatim>\<open>Connection\<close> class (not among the sources) does
  beyond the calls recorded as effects. When the bound socket of a connection closes, the
  connection is marked offline with the time of the disconnection and stays in the table.
  A disposed connection is destroyed: its closed notification fires, and the close
  listener \<^verbatim>\<open>connect\<close> registered for it (\<open>onClose\<close>) deletes its token from the table.
  \<open>after_registration\<close> is the dispatcher once the disposals of a handshake have had
  this effect.
\<close>

definition socketClosed :: "ConnectionType \<Rightarrow> string \<Rightarrow> nat \<Rightarrow> Vscode \<Rightarrow> Vscode" where
  "socketClosed t tok now s =
     (case connections s t of
        None \<Rightarrow> s
      | Some conns \<Rightarrow>
          s\<lparr>connections := (connections s)
               (t \<mapsto> map (\<lambda>(k, c). if k = tok then (k, c\<lparr>offline := Some now\<rparr>) else (k, c))
                         conns)\<rparr>)"

definition close_disposed :: "ConnectionType \<Rightarrow> string list \<Rightarrow> Vscode \<Rightarrow> Vscode" where
  "close_disposed t toks s = fold (\<lambda>tok s'. snd (onClose t tok s')) toks s"

definition after_registration ::
  "string option \<Rightarrow> ConnectionTypeRequest \<Rightarrow> Protocol \<Rightarrow> Vscode \<Rightarrow> Vscode" where
  "after_registration product_commit message protocol s =
     close_disposed (desiredConnectionType message)
       (disposed (fst (snd (connect product_commit message protocol s))))
       (snd (snd (connect product_commit message protocol s)))"

text \<open>
  Everything that happens to the dispatcher's table: a handshake, the close listener of
  a connection running, and the socket of a connection closing.
\<close>

datatype dispatcher_event =
    Handshake "string option" ConnectionTypeRequest Protocol
  | ConnectionClosed ConnectionType string
  | SocketClosed ConnectionType string nat

fun dispatch :: "dispatcher_event \<Rightarrow> Vscode \<Rightarrow> Vscode" where
  "dispatch (Handshake product_commit message protocol) s =
     snd (snd (connect product_commit message protocol s))"
| "dispatch (ConnectionClosed t tok) s = snd (onClose t tok s)"
| "dispatch (SocketClosed t tok now) s = socketClosed t tok now s"

primrec dispatched :: "dispatcher_event list \<Rightarrow> Vscode \<Rightarrow> Vscode" where
  "dispatched [] s = s"
| "dispatched (e # es) s = dispatched es (dispatch e s)"

text \<open>Every connection of a table is registered under its own token.\<close>

definition keyed_by_token :: "Vscode \<Rightarrow> ConnectionType \<Rightarrow> bool" where
  "keyed_by_token s t = list_all (\<lambda>(k, c). token c = k) (registered s t)"

subsection \<open>Sample dispatcher states\<close>

definition sample_connection :: "string \<Rightarrow> nat option \<Rightarrow> Connection" where
  "sample_connection tok off =
     \<lparr>token = tok, flavour = Management, language = None, offline = off\<rparr>"

definition sample_table :: connection_table where
  "sample_table =
     [(''a'', sample_connection ''a'' (Some 10)),
      (''b'', sample_connection ''b'' (Some 5)),
      (''c'', sample_connection ''c'' None)]"

definition sample_Vscode :: Vscode where
  "sample_Vscode = \<lparr>connections = [Management \<mapsto> sample_table]\<rparr>"

definition sample_request :: "ConnectionType \<Rightarrow> ConnectionTypeRequest" where
  "sample_request t = \<lparr>desiredConnectionType = t, commit = None, args = None\<rparr>"

definition sample_protocol :: "string \<Rightarrow> bool \<Rightarrow> Protocol" where
  "sample_protocol tok re =
     \<lparr>reconnectionToken = tok, reconnection = re, socket = 7, entireBuffer = []\<rparr>"

definition sample_events :: "dispatcher_event list" where
  "sample_events =
     [Handshake None (sample_request Management) (sample_protocol ''a'' False),
      Handshake None (sample_request Management) (sample_protocol ''b'' False),
      Handshake None (sample_request Management) (sample_protocol ''c'' False),
      SocketClosed Management ''a'' 10,
      SocketClosed Management ''b'' 5]"

section \<open>Persistent terminal processes: \<^verbatim>\<open>lib/vscode/src/vs/platform/terminal/node/ptyService.ts\<close>\<close>

subsection \<open>Collaborators of a persistent terminal process\<close>

text \<open>
  Modelled from the spec: the one-shot grace timer (\<^verbatim>\<open>RunOnceScheduler\<close> of
  \<^verbatim>\<open>vs/base/common/async\<close>, not among the sources). A timer is armed or not; it is
  cancellable, and cancelling a timer that is not armed changes nothing.
\<close>

type_synonym RunOnceScheduler = bool

definition schedule :: "RunOnceScheduler \<Rightarrow> RunOnceScheduler" where
  "schedule r = True"

definition cancel :: "RunOnceScheduler \<Rightarrow> RunOnceScheduler" where
  "cancel r = False"

definition isScheduled :: "RunOnceScheduler \<Rightarrow> bool" where
  "isScheduled r = r"

text \<open>
  Modelled from the spec: the orphan detector's barrier (\<^verbatim>\<open>AutoOpenBarrier\<close> of
  \<^verbatim>\<open>vs/base/common/async\<close>, not among the sources). It is constructed closed with the
  time after which it opens by itself, and stays open once opened.
\<close>

record AutoOpenBarrier =
  autoOpenTimeMs :: nat
  isOpen :: bool

definition new_AutoOpenBarrier :: "nat \<Rightarrow> AutoOpenBarrier" where
  "new_AutoOpenBarrier ms = \<lparr>autoOpenTimeMs = ms, isOpen = False\<rparr>"

definition barrier_open :: "AutoOpenBarrier \<Rightarrow> AutoOpenBarrier" where
  "barrier_open b = b\<lparr>isOpen := True\<rparr>"

text \<open>
  Modelled from the spec: the output recorder (\<^verbatim>\<open>TerminalRecorder\<close> of
  \<^verbatim>\<open>vs/platform/terminal/common/terminalRecorder\<close>, not among the sources). It starts with
  the terminal's dimensions and appends, in order, what is recorded; the replay event is
  the whole recorded sequence. An entry is a size with the data recorded at that size,
  which is what \<^verbatim>\<open>triggerReplay\<close> reads of it (\<^verbatim>\<open>e.data.length\<close> of every entry).
\<close>

record ReplayEntry =
  entry_cols :: nat
  entry_rows :: nat
  entry_data :: string

type_synonym TerminalRecorder = "ReplayEntry list"

definition new_TerminalRecorder :: "nat \<Rightarrow> nat \<Rightarrow> TerminalRecorder" where
  "new_TerminalRecorder c r = [\<lparr>entry_cols = c, entry_rows = r, entry_data = []\<rparr>]"

definition recordResize :: "nat \<Rightarrow> nat \<Rightarrow> TerminalRecorder \<Rightarrow> TerminalRecorder" where
  "recordResize c r rec = rec @ [\<lparr>entry_cols = c, entry_rows = r, entry_data = []\<rparr>]"

definition recordData :: "string \<Rightarrow> TerminalRecorder \<Rightarrow> TerminalRecorder" where
  "recordData d rec =
     (case rev rec of
        [] \<Rightarrow> [\<lparr>entry_cols = 0, entry_rows = 0, entry_data = d\<rparr>]
      | e # es \<Rightarrow> rev es @ [e\<lparr>entry_data := entry_data e @ d\<rparr>])"

definition generateReplayEvent :: "TerminalRecorder \<Rightarrow> ReplayEntry list" where
  "generateReplayEvent rec = rec"

text \<open>
  The underlying \<^verbatim>\<open>TerminalProcess\<close> (not among the sources) is the environment of a
  persistent process. The record holds what it answers when asked: the error \<^verbatim>\<open>start()\<close>
  resolves to (none when the child was spawned), its current title, and what
  \<^verbatim>\<open>getCwd()\<close> resolves to (none when that promise is rejected).
\<close>

datatype ITerminalLaunchError = LaunchError string

record TerminalProcess =
  startResult :: "ITerminalLaunchError option"
  currentTitle :: string
  processCwd :: "string option"

text \<open>
  The calls a persistent process makes on its collaborators, in order, and the answers
  it gives to \<^verbatim>\<open>isOrphaned()\<close> calls: \<open>IsOrphanedResolved k r\<close> is the promise of the
  call with ticket \<open>k\<close> resolving to \<open>r\<close>.
\<close>

datatype pty_effect =
    TerminalStart
  | TerminalShutdown bool
  | TerminalInput string
  | TerminalResize nat nat
  | TerminalAcknowledgeDataEvent nat
  | TerminalClearUnacknowledgedChars
  | FireProcessReady int string
  | FireProcessTitleChanged string
  | FireProcessReplay "ReplayEntry list"
  | LogInfoReplaying nat nat nat
  | LogInfoGraceTimeExpired nat
  | LogInfoShortGraceTimeExpired nat
  | IsOrphanedResolved nat bool

subsection \<open>The class \<^verbatim>\<open>PersistentTerminalProcess\<close>\<close>

record PersistentTerminalProcess =
  persistentTerminalId :: nat
  terminalProcess :: TerminalProcess
  workspaceId :: string
  workspaceName :: string
  shouldPersistTerminal :: bool
  pendingCommands :: "nat list"
  recorder :: TerminalRecorder
  isStarted :: bool
  orphanQuestionBarrier :: "AutoOpenBarrier option"
  orphanQuestionReplyTime :: int
  orphanRequestQueue :: "nat list"
  disconnectRunner1 :: RunOnceScheduler
  disconnectRunner2 :: RunOnceScheduler
  inReplay :: bool
  pid :: int
  cwd :: string

text \<open>
  Modelled from the spec: the single-slot request queue (\<^verbatim>\<open>Queue\<close> of
  \<^verbatim>\<open>vs/base/common/async\<close>, not among the sources) through which \<^verbatim>\<open>isOrphaned()\<close> runs its
  checks: one check is in flight at a time, and a call made meanwhile waits for its turn.
  The field \<open>orphanRequestQueue\<close> holds the tickets of the calls not yet answered, in
  the order they were made; the first is the check in flight.

  The constructor and the field initialisers.
\<close>

definition new_PersistentTerminalProcess ::
  "nat \<Rightarrow> TerminalProcess \<Rightarrow> string \<Rightarrow> string \<Rightarrow> bool \<Rightarrow> nat \<Rightarrow> nat
     \<Rightarrow> PersistentTerminalProcess" where
  "new_PersistentTerminalProcess ident process wsId wsName persist c r =
     \<lparr>persistentTerminalId = ident,
      terminalProcess = process,
      workspaceId = wsId,
      workspaceName = wsName,
      shouldPersistTerminal = persist,
      pendingCommands = [],
      recorder = new_TerminalRecorder c r,
      isStarted = False,
      orphanQuestionBarrier = None,
      orphanQuestionReplyTime = 0,
      orphanRequestQueue = [],
      disconnectRunner1 = False,
      disconnectRunner2 = False,
      inReplay = False,
      pid = - 1,
      cwd = []\<rparr>"

definition shutdown :: "bool \<Rightarrow> PersistentTerminalProcess \<Rightarrow> pty_effect list \<times> PersistentTerminalProcess" where
  "shutdown immediate s = ([TerminalShutdown immediate], s)"

definition attach :: "PersistentTerminalProcess \<Rightarrow> pty_effect list \<times> PersistentTerminalProcess" where
  "attach s = ([], s\<lparr>disconnectRunner1 := cancel (disconnectRunner1 s)\<rparr>)"

definition detach :: "PersistentTerminalProcess \<Rightarrow> pty_effect list \<times> PersistentTerminalProcess" where
  "detach s =
     (if shouldPersistTerminal s
      then ([], s\<lparr>disconnectRunner1 := schedule (disconnectRunner1 s)\<rparr>)
      else shutdown True s)"

definition triggerReplay :: "PersistentTerminalProcess \<Rightarrow> pty_effect list \<times> PersistentTerminalProcess" where
  "triggerReplay s =
     (let ev = generateReplayEvent (recorder s);
          dataLength = sum_list (map (\<lambda>e. length (entry_data e)) ev)
      in ([LogInfoReplaying (persistentTerminalId s) dataLength (length ev),
           FireProcessReplay ev,
           TerminalClearUnacknowledgedChars], s))"

text \<open>
  \<^verbatim>\<open>start\<close>: the first component is what the promise resolves to, a launch error or
  \<^verbatim>\<open>undefined\<close>.
\<close>

definition start ::
  "PersistentTerminalProcess
     \<Rightarrow> ITerminalLaunchError option \<times> pty_effect list \<times> PersistentTerminalProcess" where
  "start s =
     (if \<not> isStarted s then
        (case startResult (terminalProcess s) of
           Some err \<Rightarrow> (Some err, [TerminalStart], s)
         | None \<Rightarrow> (None, [TerminalStart], s\<lparr>isStarted := True\<rparr>))
      else
        (None,
         [FireProcessReady (pid s) (cwd s),
          FireProcessTitleChanged (currentTitle (terminalProcess s))]
           @ fst (triggerReplay s),
         snd (triggerReplay s)))"

definition input :: "string \<Rightarrow> PersistentTerminalProcess \<Rightarrow> pty_effect list \<times> PersistentTerminalProcess" where
  "input d s = (if inReplay s then ([], s) else ([TerminalInput d], s))"

definition resize :: "nat \<Rightarrow> nat \<Rightarrow> PersistentTerminalProcess \<Rightarrow> pty_effect list \<times> PersistentTerminalProcess" where
  "resize c r s =
     (if inReplay s then ([], s)
      else ([TerminalResize c r], s\<lparr>recorder := recordResize c r (recorder s)\<rparr>))"

definition acknowledgeDataEvent ::
  "nat \<Rightarrow> PersistentTerminalProcess \<Rightarrow> pty_effect list \<times> PersistentTerminalProcess" where
  "acknowledgeDataEvent charCount s =
     (if inReplay s then ([], s) else ([TerminalAcknowledgeDataEvent charCount], s))"

definition sendCommandResult :: "nat \<Rightarrow> PersistentTerminalProcess \<Rightarrow> PersistentTerminalProcess" where
  "sendCommandResult reqId s =
     (if reqId \<notin> set (pendingCommands s) then s
      else s\<lparr>pendingCommands := removeAll reqId (pendingCommands s)\<rparr>)"

text \<open>
  \<^verbatim>\<open>orphanQuestionReply\<close> at clock reading \<open>now\<close> (\<^verbatim>\<open>Date.now()\<close>): the time is recorded,
  and a barrier in the field is taken out of it and opened, which ends the wait of the
  check suspended on it.
\<close>

definition orphanQuestionReply :: "int \<Rightarrow> PersistentTerminalProcess \<Rightarrow> PersistentTerminalProcess" where
  "orphanQuestionReply now s =
     s\<lparr>orphanQuestionReplyTime := now, orphanQuestionBarrier := None\<rparr>"

definition reduceGraceTime :: "PersistentTerminalProcess \<Rightarrow> PersistentTerminalProcess" where
  "reduceGraceTime s =
     (if isScheduled (disconnectRunner2 s) then s
      else if isScheduled (disconnectRunner1 s)
      then s\<lparr>disconnectRunner2 := schedule (disconnectRunner2 s)\<rparr>
      else s)"

text \<open>
  The private \<^verbatim>\<open>_isOrphaned\<close> is one check. It is split at its \<^verbatim>\<open>await\<close>:
  \<open>isOrphaned_suspend\<close> is the part before it, which either resolves at once or is
  left waiting on the barrier in the field, and \<open>isOrphaned_resume\<close> is the part
  after it, at the clock reading \<open>now\<close> (\<^verbatim>\<open>Date.now()\<close>) of the moment the wait
  completes.
\<close>

datatype orphan_check = Resolved bool | AwaitingBarrier AutoOpenBarrier

definition isOrphaned_suspend ::
  "PersistentTerminalProcess \<Rightarrow> orphan_check \<times> PersistentTerminalProcess" where
  "isOrphaned_suspend s =
     (if isScheduled (disconnectRunner1 s) \<or> isScheduled (disconnectRunner2 s)
      then (Resolved True, s)
      else (case orphanQuestionBarrier s of
              None \<Rightarrow>
                (AwaitingBarrier (new_AutoOpenBarrier 4000),
                 s\<lparr>orphanQuestionBarrier := Some (new_AutoOpenBarrier 4000),
                    orphanQuestionReplyTime := 0\<rparr>)
            | Some b \<Rightarrow> (AwaitingBarrier b, s)))"

definition isOrphaned_resume :: "int \<Rightarrow> PersistentTerminalProcess \<Rightarrow> bool" where
  "isOrphaned_resume now s = (now - orphanQuestionReplyTime s > 500)"

text \<open>The barrier in the field opens by itself when its time has passed.\<close>

definition barrier_timeout :: "PersistentTerminalProcess \<Rightarrow> PersistentTerminalProcess" where
  "barrier_timeout s =
     s\<lparr>orphanQuestionBarrier := map_option barrier_open (orphanQuestionBarrier s)\<rparr>"

text \<open>
  The wait of the check in flight is over when the barrier it waits on is open: a reply
  has taken it out of the field and opened it, or it is in the field and has opened.
\<close>

definition wait_over :: "PersistentTerminalProcess \<Rightarrow> bool" where
  "wait_over s = (case orphanQuestionBarrier s of None \<Rightarrow> True | Some b \<Rightarrow> isOpen b)"

text \<open>
  The queue runs the waiting calls in order, at clock reading \<open>now\<close>: each runs
  \<^verbatim>\<open>_isOrphaned\<close>. A check that resolves at once, or finds the barrier open, is answered
  and the next call has its turn; a check that has to wait stays in flight with the calls
  behind it.
\<close>

fun run_queued ::
  "int \<Rightarrow> nat list \<Rightarrow> PersistentTerminalProcess \<Rightarrow> pty_effect list \<times> PersistentTerminalProcess" where
  "run_queued now [] s = ([], s\<lparr>orphanRequestQueue := []\<rparr>)"
| "run_queued now (k # ks) s =
     (case isOrphaned_suspend s of
        (Resolved r, s1) \<Rightarrow>
          (IsOrphanedResolved k r # fst (run_queued now ks s1), snd (run_queued now ks s1))
      | (AwaitingBarrier b, s1) \<Rightarrow>
          (if isOpen b
           then (IsOrphanedResolved k (isOrphaned_resume now s1) # fst (run_queued now ks s1),
                 snd (run_queued now ks s1))
           else ([], s1\<lparr>orphanRequestQueue := k # ks\<rparr>)))"

text \<open>
  The public \<^verbatim>\<open>isOrphaned()\<close>, called with ticket \<open>k\<close> at clock reading \<open>now\<close>: the call
  goes behind a check in flight, and runs at once when there is none.
\<close>

definition isOrphaned ::
  "nat \<Rightarrow> int \<Rightarrow> PersistentTerminalProcess \<Rightarrow> pty_effect list \<times> PersistentTerminalProcess" where
  "isOrphaned k now s =
     (if orphanRequestQueue s \<noteq> []
      then ([], s\<lparr>orphanRequestQueue := orphanRequestQueue s @ [k]\<rparr>)
      else run_queued now [k] s)"

text \<open>
  The continuation of the check in flight, at clock reading \<open>now\<close>: once its wait is
  over it is answered, and the calls queued behind it have their turn.
\<close>

definition isOrphaned_wait_over ::
  "int \<Rightarrow> PersistentTerminalProcess \<Rightarrow> pty_effect list \<times> PersistentTerminalProcess" where
  "isOrphaned_wait_over now s =
     (case orphanRequestQueue s of
        [] \<Rightarrow> ([], s)
      | k # ks \<Rightarrow>
          (if wait_over s
           then (IsOrphanedResolved k (isOrphaned_resume now s) # fst (run_queued now ks s),
                 snd (run_queued now ks s))
           else ([], s)))"

subsection \<open>The life of a persistent terminal process\<close>

text \<open>
  Everything that can happen to a process after its construction: the calls of its
  public methods, the events of the underlying terminal process its constructor
  subscribes to, its two timers firing, its barrier timing out, and the underlying
  process changing its answers. \<^verbatim>\<open>getInitialCwd\<close>, \<^verbatim>\<open>getCwd\<close> and \<^verbatim>\<open>getLatency\<close> only
  hand the call on to the terminal process and are left out.
\<close>

datatype pty_event =
    Attach
  | Detach
  | Start
  | Shutdown bool
  | Input string
  | Resize nat nat
  | AcknowledgeDataEvent nat
  | TriggerReplay
  | SendCommandResult nat
  | OrphanQuestionReply int
  | ReduceGraceTime
  | IsOrphanedCall nat int
  | IsOrphanedWaitOver int
  | ProcessReady int string
  | ProcessTitleChanged string
  | ProcessData string
  | GraceTimeExpired
  | ShortGraceTimeExpired
  | BarrierTimeout
  | ProcessAnswers TerminalProcess

fun step :: "pty_event \<Rightarrow> PersistentTerminalProcess \<Rightarrow> pty_effect list \<times> PersistentTerminalProcess" where
  "step Attach s = attach s"
| "step Detach s = detach s"
| "step Start s = snd (start s)"
| "step (Shutdown immediate) s = shutdown immediate s"
| "step (Input d) s = input d s"
| "step (Resize c r) s = resize c r s"
| "step (AcknowledgeDataEvent n) s = acknowledgeDataEvent n s"
| "step TriggerReplay s = triggerReplay s"
| "step (SendCommandResult reqId) s = ([], sendCommandResult reqId s)"
| "step (OrphanQuestionReply now) s = ([], orphanQuestionReply now s)"
| "step ReduceGraceTime s = ([], reduceGraceTime s)"
| "step (IsOrphanedCall k now) s = isOrphaned k now s"
| "step (IsOrphanedWaitOver now) s = isOrphaned_wait_over now s"
| "step (ProcessReady p c) s = ([FireProcessReady p c], s\<lparr>pid := p, cwd := c\<rparr>)"
| "step (ProcessTitleChanged t) s = ([FireProcessTitleChanged t], s)"
| "step (ProcessData d) s = ([], s\<lparr>recorder := recordData d (recorder s)\<rparr>)"
| "step GraceTimeExpired s =
     (if isScheduled (disconnectRunner1 s)
      then (LogInfoGraceTimeExpired (persistentTerminalId s)
              # fst (shutdown True (s\<lparr>disconnectRunner1 := False\<rparr>)),
            snd (shutdown True (s\<lparr>disconnectRunner1 := False\<rparr>)))
      else ([], s))"
| "step ShortGraceTimeExpired s =
     (if isScheduled (disconnectRunner2 s)
      then (LogInfoShortGraceTimeExpired (persistentTerminalId s)
              # fst (shutdown True (s\<lparr>disconnectRunner2 := False\<rparr>)),
            snd (shutdown True (s\<lparr>disconnectRunner2 := False\<rparr>)))
      else ([], s))"
| "step BarrierTimeout s = ([], barrier_timeout s)"
| "step (ProcessAnswers process) s = ([], s\<lparr>terminalProcess := process\<rparr>)"

primrec after :: "pty_event list \<Rightarrow> PersistentTerminalProcess \<Rightarrow> PersistentTerminalProcess" where
  "after [] s = s"
| "after (e # es) s = after es (snd (step e s))"

subsection \<open>Invariants of the orphan barrier\<close>



subsection \<open>The registry: class \<^verbatim>\<open>PtyService\<close>\<close>

datatype pty_error =
    UnknownProcess nat
  | AttachNotAllowed
  | CwdUnavailable nat

datatype service_effect =
    OnProcess nat pty_effect
  | LogTraceReconnection nat
  | LogTraceReconnectionFailed nat pty_error
  | LogTraceLayoutFailed pty_error

text \<open>
  The layout types. \<^verbatim>\<open>IRawTerminalInstanceLayoutInfo<T>\<close> and
  \<^verbatim>\<open>IRawTerminalTabLayoutInfo<T>\<close> are generic in what stands for a terminal: an id in a
  stored layout, a descriptor (or \<^verbatim>\<open>null\<close>) in an expanded one. The relative size is
  only copied, so its type is left open.
\<close>

record ('t, 'r) IRawTerminalInstanceLayoutInfo =
  terminal :: 't
  relativeSize :: 'r

record ('t, 'r) IRawTerminalTabLayoutInfo =
  isActive :: bool
  activePersistentTerminalId :: "nat option"
  terminals :: "('t, 'r) IRawTerminalInstanceLayoutInfo list"

record 'r ISetTerminalLayoutInfoArgs =
  args_workspaceId :: string
  args_tabs :: "(nat, 'r) IRawTerminalTabLayoutInfo list"

record IPtyHostDescriptionDto =
  dto_id :: nat
  dto_title :: string
  dto_pid :: int
  dto_workspaceId :: string
  dto_workspaceName :: string
  dto_cwd :: string
  dto_isOrphan :: bool

record 'r ITerminalsLayoutInfo =
  tabs :: "(IPtyHostDescriptionDto, 'r) IRawTerminalTabLayoutInfo list"

record 'r PtyService =
  ptys :: "nat \<rightharpoonup> PersistentTerminalProcess"
  workspaceLayoutInfos :: "string \<rightharpoonup> 'r ISetTerminalLayoutInfoArgs"
  lastPtyId :: nat

definition new_PtyService :: "nat \<Rightarrow> 'r PtyService" where
  "new_PtyService lastId =
     \<lparr>ptys = Map.empty, workspaceLayoutInfos = Map.empty, lastPtyId = lastId\<rparr>"

definition throwIfNoPty :: "nat \<Rightarrow> 'r PtyService \<Rightarrow> pty_error + PersistentTerminalProcess" where
  "throwIfNoPty ident svc =
     (case ptys svc ident of None \<Rightarrow> Inl (UnknownProcess ident) | Some pty \<Rightarrow> Inr pty)"

text \<open>
  \<^verbatim>\<open>createProcess\<close>; \<open>attachGiven\<close> says whether the launch configuration carries
  \<^verbatim>\<open>attachPersistentTerminal\<close>, and \<open>process\<close> is the terminal process constructed.
\<close>

definition createProcess ::
  "bool \<Rightarrow> TerminalProcess \<Rightarrow> nat \<Rightarrow> nat \<Rightarrow> bool \<Rightarrow> string \<Rightarrow> string \<Rightarrow> 'r PtyService
     \<Rightarrow> (pty_error + nat) \<times> 'r PtyService" where
  "createProcess attachGiven process c r shouldPersist wsId wsName svc =
     (if attachGiven then (Inl AttachNotAllowed, svc)
      else (let ident = lastPtyId svc + 1
            in (Inr ident,
                svc\<lparr>lastPtyId := ident,
                    ptys := (ptys svc)(ident \<mapsto>
                      new_PersistentTerminalProcess ident process wsId wsName shouldPersist c r)\<rparr>)))"

text \<open>The exit listener \<^verbatim>\<open>createProcess\<close> registers: the process leaves the registry.\<close>

definition onProcessExit :: "nat \<Rightarrow> 'r PtyService \<Rightarrow> 'r PtyService" where
  "onProcessExit ident svc = svc\<lparr>ptys := (ptys svc)(ident := None)\<rparr>"

text \<open>
  A method of the process run from the registry: its effects are tagged with the id and
  the process is stored back.
\<close>

definition on_process ::
  "nat \<Rightarrow> pty_effect list \<times> PersistentTerminalProcess \<Rightarrow> 'r PtyService
     \<Rightarrow> service_effect list \<times> 'r PtyService" where
  "on_process ident res svc =
     (map (OnProcess ident) (fst res), svc\<lparr>ptys := (ptys svc)(ident \<mapsto> snd res)\<rparr>)"

text \<open>
  The registry's methods are \<^verbatim>\<open>async\<close>: the first component is the rejection of the
  returned promise (\<open>Inl\<close>) or the value it resolves to.
\<close>

definition attachToProcess ::
  "nat \<Rightarrow> 'r PtyService \<Rightarrow> (pty_error + unit) \<times> service_effect list \<times> 'r PtyService" where
  "attachToProcess ident svc =
     (case throwIfNoPty ident svc of
        Inr pty \<Rightarrow>
          (Inr (),
           fst (on_process ident (attach pty) svc) @ [LogTraceReconnection ident],
           snd (on_process ident (attach pty) svc))
      | Inl e \<Rightarrow> (Inr (), [LogTraceReconnectionFailed ident e], svc))"

definition detachFromProcess ::
  "nat \<Rightarrow> 'r PtyService \<Rightarrow> (pty_error + unit) \<times> service_effect list \<times> 'r PtyService" where
  "detachFromProcess ident svc =
     (case throwIfNoPty ident svc of
        Inl e \<Rightarrow> (Inl e, [], svc)
      | Inr pty \<Rightarrow> (Inr (), on_process ident (detach pty) svc))"

definition PtyService_start ::
  "nat \<Rightarrow> 'r PtyService
     \<Rightarrow> (pty_error + ITerminalLaunchError option) \<times> service_effect list \<times> 'r PtyService" where
  "PtyService_start ident svc =
     (case throwIfNoPty ident svc of
        Inl e \<Rightarrow> (Inl e, [], svc)
      | Inr pty \<Rightarrow> (Inr (fst (start pty)), on_process ident (snd (start pty)) svc))"

definition PtyService_shutdown ::
  "nat \<Rightarrow> bool \<Rightarrow> 'r PtyService \<Rightarrow> (pty_error + unit) \<times> service_effect list \<times> 'r PtyService" where
  "PtyService_shutdown ident immediate svc =
     (case throwIfNoPty ident svc of
        Inl e \<Rightarrow> (Inl e, [], svc)
      | Inr pty \<Rightarrow> (Inr (), on_process ident (shutdown immediate pty) svc))"

definition PtyService_input ::
  "nat \<Rightarrow> string \<Rightarrow> 'r PtyService \<Rightarrow> (pty_error + unit) \<times> service_effect list \<times> 'r PtyService" where
  "PtyService_input ident d svc =
     (case throwIfNoPty ident svc of
        Inl e \<Rightarrow> (Inl e, [], svc)
      | Inr pty \<Rightarrow> (Inr (), on_process ident (input d pty) svc))"

definition PtyService_resize ::
  "nat \<Rightarrow> nat \<Rightarrow> nat \<Rightarrow> 'r PtyService
     \<Rightarrow> (pty_error + unit) \<times> service_effect list \<times> 'r PtyService" where
  "PtyService_resize ident c r svc =
     (case throwIfNoPty ident svc of
        Inl e \<Rightarrow> (Inl e, [], svc)
      | Inr pty \<Rightarrow> (Inr (), on_process ident (resize c r pty) svc))"

definition PtyService_acknowledgeDataEvent ::
  "nat \<Rightarrow> nat \<Rightarrow> 'r PtyService
     \<Rightarrow> (pty_error + unit) \<times> service_effect list \<times> 'r PtyService" where
  "PtyService_acknowledgeDataEvent ident charCount svc =
     (case throwIfNoPty ident svc of
        Inl e \<Rightarrow> (Inl e, [], svc)
      | Inr pty \<Rightarrow> (Inr (), on_process ident (acknowledgeDataEvent charCount pty) svc))"

definition setTerminalLayoutInfo :: "'r ISetTerminalLayoutInfoArgs \<Rightarrow> 'r PtyService \<Rightarrow> 'r PtyService" where
  "setTerminalLayoutInfo a svc =
     svc\<lparr>workspaceLayoutInfos := (workspaceLayoutInfos svc)(args_workspaceId a \<mapsto> a)\<rparr>"

text \<open>
  \<^verbatim>\<open>_terminalToDto\<close> awaits \<^verbatim>\<open>getCwd()\<close> and \<^verbatim>\<open>isOrphaned()\<close>. The first is answered by the
  terminal process and fails when that promise is rejected; what the second resolves to
  is given by \<open>orphaned\<close> (the check itself is \<open>isOrphaned\<close> above).
\<close>

definition terminalToDto ::
  "(nat \<Rightarrow> bool) \<Rightarrow> nat \<Rightarrow> PersistentTerminalProcess \<Rightarrow> pty_error + IPtyHostDescriptionDto" where
  "terminalToDto orphaned ident pty =
     (case processCwd (terminalProcess pty) of
        None \<Rightarrow> Inl (CwdUnavailable ident)
      | Some c \<Rightarrow>
          Inr \<lparr>dto_id = ident,
               dto_title = currentTitle (terminalProcess pty),
               dto_pid = pid pty,
               dto_workspaceId = workspaceId pty,
               dto_workspaceName = workspaceName pty,
               dto_cwd = c,
               dto_isOrphan = orphaned ident\<rparr>)"

definition expandTerminalInstance ::
  "(nat \<Rightarrow> bool) \<Rightarrow> (nat, 'r) IRawTerminalInstanceLayoutInfo \<Rightarrow> 'r PtyService
     \<Rightarrow> service_effect list \<times> (IPtyHostDescriptionDto option, 'r) IRawTerminalInstanceLayoutInfo" where
  "expandTerminalInstance orphaned t svc =
     (case throwIfNoPty (terminal t) svc of
        Inl e \<Rightarrow> ([LogTraceLayoutFailed e], \<lparr>terminal = None, relativeSize = relativeSize t\<rparr>)
      | Inr pty \<Rightarrow>
          (case terminalToDto orphaned (terminal t) pty of
             Inl e \<Rightarrow> ([LogTraceLayoutFailed e], \<lparr>terminal = None, relativeSize = relativeSize t\<rparr>)
           | Inr termDto \<Rightarrow> ([], \<lparr>terminal = Some termDto, relativeSize = relativeSize t\<rparr>)))"

text \<open>
  The filter of \<^verbatim>\<open>_expandTerminalTab\<close> keeps the entries whose terminal is not \<^verbatim>\<open>null\<close>;
  the cast that follows gives them the type without \<^verbatim>\<open>null\<close>.
\<close>

definition not_null ::
  "(IPtyHostDescriptionDto option, 'r) IRawTerminalInstanceLayoutInfo
     \<Rightarrow> (IPtyHostDescriptionDto, 'r) IRawTerminalInstanceLayoutInfo list" where
  "not_null term =
     (case terminal term of
        None \<Rightarrow> []
      | Some d \<Rightarrow> [\<lparr>terminal = d, relativeSize = relativeSize term\<rparr>])"

definition expandTerminalTab ::
  "(nat \<Rightarrow> bool) \<Rightarrow> (nat, 'r) IRawTerminalTabLayoutInfo \<Rightarrow> 'r PtyService
     \<Rightarrow> service_effect list \<times> (IPtyHostDescriptionDto, 'r) IRawTerminalTabLayoutInfo" where
  "expandTerminalTab orphaned tab svc =
     (let expandedTerminals = map (\<lambda>t. expandTerminalInstance orphaned t svc) (terminals tab);
          filtered = concat (map (\<lambda>x. not_null (snd x)) expandedTerminals)
      in (concat (map fst expandedTerminals),
          \<lparr>isActive = isActive tab,
           activePersistentTerminalId = activePersistentTerminalId tab,
           terminals = filtered\<rparr>))"

definition getTerminalLayoutInfo ::
  "(nat \<Rightarrow> bool) \<Rightarrow> string \<Rightarrow> 'r PtyService
     \<Rightarrow> service_effect list \<times> 'r ITerminalsLayoutInfo option" where
  "getTerminalLayoutInfo orphaned wsId svc =
     (case workspaceLayoutInfos svc wsId of
        Some layout \<Rightarrow>
          (let expandedTabs = map (\<lambda>tab. expandTerminalTab orphaned tab svc) (args_tabs layout);
               filtered = filter (\<lambda>t. length (terminals t) > 0) (map snd expandedTabs)
           in (concat (map fst expandedTabs), Some \<lparr>tabs = filtered\<rparr>))
      | None \<Rightarrow> ([], None))"

text \<open>
  The expansion as the specification words it: a reference whose process is gone stays in
  its tab's terminal list as a \<^verbatim>\<open>null\<close> placeholder, and a tab is dropped when none of
  its terminals is live.
\<close>

definition expandTerminalTab_spec ::
  "(nat \<Rightarrow> bool) \<Rightarrow> (nat, 'r) IRawTerminalTabLayoutInfo \<Rightarrow> 'r PtyService
     \<Rightarrow> (IPtyHostDescriptionDto option, 'r) IRawTerminalTabLayoutInfo" where
  "expandTerminalTab_spec orphaned tab svc =
     \<lparr>isActive = isActive tab,
      activePersistentTerminalId = activePersistentTerminalId tab,
      terminals = map (\<lambda>t. snd (expandTerminalInstance orphaned t svc)) (terminals tab)\<rparr>"

definition getTerminalLayoutInfo_spec ::
  "(nat \<Rightarrow> bool) \<Rightarrow> string \<Rightarrow> 'r PtyService
     \<Rightarrow> (IPtyHostDescriptionDto option, 'r) IRawTerminalTabLayoutInfo list option" where
  "getTerminalLayoutInfo_spec orphaned wsId svc =
     (case workspaceLayoutInfos svc wsId of
        Some layout \<Rightarrow>
          Some (filter (\<lambda>t. list_ex (\<lambda>term. terminal term \<noteq> None) (terminals t))
                  (map (\<lambda>tab. expandTerminalTab_spec orphaned tab svc) (args_tabs layout)))
      | None \<Rightarrow> None)"

text \<open>
  A reference is live when its process is in the registry and answers \<^verbatim>\<open>getCwd()\<close>.
\<close>

definition live :: "'r PtyService \<Rightarrow> nat \<Rightarrow> bool" where
  "live svc ident =
     (case ptys svc ident of
        None \<Rightarrow> False
      | Some pty \<Rightarrow> processCwd (terminalProcess pty) \<noteq> None)"

text \<open>The ids in each tab's terminal list, \<open>None\<close> for a placeholder.\<close>

definition listed_ids :: "'r ITerminalsLayoutInfo \<Rightarrow> nat option list list" where
  "listed_ids info =
     map (\<lambda>t. map (\<lambda>term. Some (dto_id (terminal term))) (terminals t)) (tabs info)"

definition listed_ids_spec ::
  "(IPtyHostDescriptionDto option, 'r) IRawTerminalTabLayoutInfo list \<Rightarrow> nat option list list" where
  "listed_ids_spec ts =
     map (\<lambda>t. map (\<lambda>term. map_option dto_id (terminal term)) (terminals t)) ts"

subsection \<open>Sample processes and registries\<close>

definition sample_terminal :: TerminalProcess where
  "sample_terminal = \<lparr>startResult = None, currentTitle = ''bash'', processCwd = Some ''/home''\<rparr>"

definition sample_pty :: "bool \<Rightarrow> PersistentTerminalProcess" where
  "sample_pty persist =
     new_PersistentTerminalProcess 1 sample_terminal ''ws'' ''workspace'' persist 80 24"

definition sample_failing_terminal :: TerminalProcess where
  "sample_failing_terminal =
     \<lparr>startResult = Some (LaunchError ''no shell''), currentTitle = [], processCwd = None\<rparr>"

definition sample_orphaned :: "nat \<Rightarrow> bool" where
  "sample_orphaned ident = False"

definition sample_tab :: "(nat, nat) IRawTerminalTabLayoutInfo" where
  "sample_tab =
     \<lparr>isActive = True, activePersistentTerminalId = Some 1,
      terminals = [\<lparr>terminal = 1, relativeSize = 1\<rparr>, \<lparr>terminal = 2, relativeSize = 1\<rparr>]\<rparr>"

definition sample_PtyService :: "nat PtyService" where
  "sample_PtyService =
     \<lparr>ptys = [1 \<mapsto> sample_pty True],
      workspaceLayoutInfos = [''ws'' \<mapsto> \<lparr>args_workspaceId = ''ws'', args_tabs = [sample_tab]\<rparr>],
      lastPtyId = 2\<rparr>"

section \<open>Properties of the session dispatcher\<close>

subsection \<open>The disposal loop and the effects of a new registration\<close>

lemma dispose_loop_take:
  "mx \<le> int (length offl) \<Longrightarrow>
   dispose_loop i mx offl = concat (map dispose_one (take (nat mx - i) (drop i offl)))"
proof (induction i mx offl rule: dispose_loop.induct)
  case (1 i mx offl)
  show ?case
  proof (cases "int i < mx")
    case True
    then have il: "i < length offl" using "1.prems" by linarith
    have step: "nat mx - i = Suc (nat mx - Suc i)" using True by linarith
    have "drop i offl = offl ! i # drop (Suc i) offl"
      using il by (simp add: Cons_nth_drop_Suc)
    then have "take (nat mx - i) (drop i offl) = offl ! i # take (nat mx - Suc i) (drop (Suc i) offl)"
      using step by simp
    moreover have "dispose_loop i mx offl = dispose_one (offl ! i) @ dispose_loop (Suc i) mx offl"
      using True by (simp add: dispose_one_def)
    ultimately show ?thesis using "1.IH"[OF True "1.prems"] by simp
  next
    case False
    then have "nat mx - i = 0" by linarith
    then show ?thesis using False by simp
  qed
qed

lemma disposed_append: "disposed (xs @ ys) = disposed xs @ disposed ys"
  by (simp add: disposed_def)

lemma disposed_dispose_all: "disposed (concat (map dispose_one cs)) = map token cs"
  by (induction cs) (simp_all add: disposed_def dispose_one_def)

lemma disposeOld_take:
  "disposeOldOfflineConnections conns =
     concat (map dispose_one
       (take (length (offline_connections conns) - maxExtraOfflineConnections)
             (offline_connections conns)))"
proof -
  let ?o = "offline_connections conns"
  have "int (length ?o) - int maxExtraOfflineConnections \<le> int (length ?o)" by simp
  from dispose_loop_take[OF this, of 0]
  show ?thesis
    by (simp add: disposeOldOfflineConnections_def Let_def nat_diff_distrib')
qed

lemma disposed_disposeOld:
  "disposed (disposeOldOfflineConnections conns) =
     map token (take (length (offline_connections conns) - maxExtraOfflineConnections) (offline_connections conns))"
  by (simp add: disposeOld_take disposed_dispose_all)

lemma connect_new:
  assumes "is_session_type (desiredConnectionType message)"
      and "\<not> reconnection protocol"
      and "\<not> has (registered s (desiredConnectionType message)) (reconnectionToken protocol)"
  shows "connect pc message protocol s =
     (Inr (),
      version_warning pc message
        @ [LogDebugNewConnection (reconnectionToken protocol),
           SendMessage (ok (desiredConnectionType message))]
        @ (if desiredConnectionType message = Management
           then [FireDidClientConnect (reconnectionToken protocol)] else [ReadEntireBuffer])
        @ disposeOldOfflineConnections
            (AList.update (reconnectionToken protocol) (new_connection message protocol)
               (registered s (desiredConnectionType message))),
      s\<lparr>connections := (connections s)(desiredConnectionType message \<mapsto>
           AList.update (reconnectionToken protocol) (new_connection message protocol)
             (registered s (desiredConnectionType message)))\<rparr>)"
  using assms by (simp add: connect_def Let_def)

lemma connect_rejected:
  assumes "is_session_type (desiredConnectionType message)"
      and "reconnection protocol \<noteq> has (registered s (desiredConnectionType message)) (reconnectionToken protocol)"
  shows "connect pc message protocol s =
     (Inl (if reconnection protocol then UnrecognizedToken else DuplicateToken),
      version_warning pc message,
      s\<lparr>connections := (connections s)(desiredConnectionType message \<mapsto>
           registered s (desiredConnectionType message))\<rparr>)"
  using assms by (auto simp add: connect_def Let_def)

lemma registered_touch:
  "registered (s\<lparr>connections := (connections s)(t \<mapsto> registered s t)\<rparr>) u = registered s u"
  by (simp add: registered_def)

lemma registered_set:
  "registered (s\<lparr>connections := (connections s)(t \<mapsto> conns)\<rparr>) t = conns"
  by (simp add: registered_def)

lemma disposed_Nil: "disposed [] = []"
  by (simp add: disposed_def)

lemma disposed_Cons:
  "disposed (e # es) = (case e of ConnectionDispose tok \<Rightarrow> [tok] | _ \<Rightarrow> []) @ disposed es"
  by (simp add: disposed_def)

lemma disposed_version_warning: "disposed (version_warning pc message) = []"
  by (simp add: version_warning_def disposed_Nil disposed_Cons split: option.splits)

lemma map_of_update_same: "map_of (AList.update k v al) k = Some v"
  by (simp add: update_conv')

lemma sample_is_new:
  "is_session_type (desiredConnectionType (sample_request Management))"
  "\<not> reconnection (sample_protocol tok False)"
  "tok \<notin> {''a'', ''b'', ''c''} \<Longrightarrow>
     \<not> has (registered sample_Vscode (desiredConnectionType (sample_request Management)))
          (reconnectionToken (sample_protocol tok False))"
  by (auto simp add: sample_request_def sample_protocol_def sample_Vscode_def
        sample_table_def is_session_type_def has_def registered_def)

lemma sample_offline:
  "offline_connections (AList.update ''n'' (ManagementConnection ''n'') sample_table)
     = [sample_connection ''a'' (Some 10), sample_connection ''b'' (Some 5)]"
  by (simp add: sample_table_def sample_connection_def offline_connections_def
        ManagementConnection_def)

lemma sample_connect:
  "connect None (sample_request Management) (sample_protocol ''n'' False) sample_Vscode
     = (Inr (),
        [LogDebugNewConnection ''n'', SendMessage OkMessage, FireDidClientConnect ''n'',
         LogDebugDisposing ''a'', ConnectionDispose ''a'',
         LogDebugDisposing ''b'', ConnectionDispose ''b''],
        \<lparr>connections =
           [Management \<mapsto> AList.update ''n'' (ManagementConnection ''n'') sample_table]\<rparr>)"
proof -
  have "connect None (sample_request Management) (sample_protocol ''n'' False) sample_Vscode
     = (Inr (),
        [LogDebugNewConnection ''n'', SendMessage OkMessage, FireDidClientConnect ''n'']
          @ disposeOldOfflineConnections
              (AList.update ''n'' (ManagementConnection ''n'') sample_table),
        \<lparr>connections =
           [Management \<mapsto> AList.update ''n'' (ManagementConnection ''n'') sample_table]\<rparr>)"
    by (simp add: connect_new [OF sample_is_new])
       (simp add: sample_request_def sample_protocol_def sample_Vscode_def registered_def
          version_warning_def ok_def new_connection_def)
  then show ?thesis
    by (simp add: disposeOld_take sample_offline maxExtraOfflineConnections_def
          dispose_one_def sample_connection_def)
qed

subsection \<open>Handshake failures\<close>

text \<open>
  C1. A handshake of type Management or ExtensionHost with the reconnection flag false
  and a connection already registered for its type and token throws
  \<open>DuplicateToken\<close>; with the flag true and no connection registered for the token
  it throws \<open>UnrecognizedToken\<close>. In both cases the connections registered for every
  type are the ones registered before.
\<close>

theorem connect_token_errors:
  assumes "is_session_type (desiredConnectionType message)"
  shows "(\<not> reconnection protocol
            \<and> has (registered s (desiredConnectionType message)) (reconnectionToken protocol)
          \<longrightarrow> fst (connect pc message protocol s) = Inl DuplicateToken
              \<and> (\<forall>t. registered (snd (snd (connect pc message protocol s))) t = registered s t))
       \<and> (reconnection protocol
            \<and> \<not> has (registered s (desiredConnectionType message)) (reconnectionToken protocol)
          \<longrightarrow> fst (connect pc message protocol s) = Inl UnrecognizedToken
              \<and> (\<forall>t. registered (snd (snd (connect pc message protocol s))) t = registered s t))"
  using assms by (simp add: connect_rejected registered_touch)

theorem connect_token_errors_witness:
  "is_session_type (desiredConnectionType (sample_request Management))
   \<and> \<not> reconnection (sample_protocol ''c'' False)
   \<and> has (registered sample_Vscode Management) ''c''
   \<and> fst (connect None (sample_request Management) (sample_protocol ''c'' False) sample_Vscode)
       = Inl DuplicateToken
   \<and> registered (snd (snd (connect None (sample_request Management)
        (sample_protocol ''c'' False) sample_Vscode))) Management = sample_table
   \<and> reconnection (sample_protocol ''z'' True)
   \<and> \<not> has (registered sample_Vscode Management) ''z''
   \<and> fst (connect None (sample_request Management) (sample_protocol ''z'' True) sample_Vscode)
       = Inl UnrecognizedToken
   \<and> registered (snd (snd (connect None (sample_request Management)
        (sample_protocol ''z'' True) sample_Vscode))) Management = sample_table"
  using connect_token_errors [of "sample_request Management" "sample_protocol ''c'' False"
          sample_Vscode None]
        connect_token_errors [of "sample_request Management" "sample_protocol ''z'' True"
          sample_Vscode None]
  by (simp add: sample_request_def sample_protocol_def sample_Vscode_def sample_table_def
        is_session_type_def has_def registered_def)

subsection \<open>New registrations\<close>

text \<open>
  C8, as the code has it. A new handshake (reconnection flag false, token not registered)
  of type Management or ExtensionHost completes normally, sends the acknowledgement of
  its type, constructs a connection with the handshake's token and type and registers it
  under that type and token. The client-connected event is fired exactly when the type
  is Management: an ExtensionHost handshake fires it for no token.
\<close>

theorem connect_new_handshake:
  assumes "is_session_type (desiredConnectionType message)"
      and "\<not> reconnection protocol"
      and "\<not> has (registered s (desiredConnectionType message)) (reconnectionToken protocol)"
  shows "fst (connect pc message protocol s) = Inr ()
       \<and> SendMessage (ok (desiredConnectionType message))
           \<in> set (fst (snd (connect pc message protocol s)))
       \<and> map_of (registered (snd (snd (connect pc message protocol s)))
                   (desiredConnectionType message)) (reconnectionToken protocol)
           = Some (new_connection message protocol)
       \<and> token (new_connection message protocol) = reconnectionToken protocol
       \<and> flavour (new_connection message protocol) = desiredConnectionType message
       \<and> (FireDidClientConnect (reconnectionToken protocol)
            \<in> set (fst (snd (connect pc message protocol s)))
          \<longleftrightarrow> desiredConnectionType message = Management)
       \<and> (\<forall>tok. desiredConnectionType message = ExtensionHost
            \<longrightarrow> FireDidClientConnect tok \<notin> set (fst (snd (connect pc message protocol s))))"
proof -
  have nofire: "FireDidClientConnect tok \<notin> set (version_warning pc message)" for tok
    by (simp add: version_warning_def split: option.splits)
  have nofire2: "FireDidClientConnect tok \<notin> set (disposeOldOfflineConnections conns)" for tok conns
    by (auto simp add: disposeOld_take dispose_one_def)
  show ?thesis
    using assms nofire nofire2
    by (auto simp add: connect_new registered_set map_of_update_same new_connection_def
          ManagementConnection_def ExtensionHostConnection_def is_session_type_def)
qed

theorem connect_new_handshake_witness:
  "is_session_type (desiredConnectionType (sample_request ExtensionHost))
   \<and> \<not> reconnection (sample_protocol ''n'' False)
   \<and> \<not> has (registered sample_Vscode ExtensionHost) ''n''
   \<and> fst (connect None (sample_request ExtensionHost) (sample_protocol ''n'' False) sample_Vscode)
       = Inr ()
   \<and> SendMessage (DebugPortMessage None)
       \<in> set (fst (snd (connect None (sample_request ExtensionHost)
                (sample_protocol ''n'' False) sample_Vscode)))
   \<and> map_of (registered (snd (snd (connect None (sample_request ExtensionHost)
                (sample_protocol ''n'' False) sample_Vscode))) ExtensionHost) ''n''
       = Some (ExtensionHostConnection (Some ''en'') ''n'')
   \<and> is_session_type (desiredConnectionType (sample_request Management))
   \<and> \<not> has (registered sample_Vscode Management) ''n''
   \<and> FireDidClientConnect ''n''
       \<in> set (fst (snd (connect None (sample_request Management)
                (sample_protocol ''n'' False) sample_Vscode)))"
  using connect_new_handshake [of "sample_request ExtensionHost" "sample_protocol ''n'' False"
          sample_Vscode None]
        connect_new_handshake [of "sample_request Management" "sample_protocol ''n'' False"
          sample_Vscode None]
  by (simp add: sample_request_def sample_protocol_def sample_Vscode_def sample_table_def
        is_session_type_def has_def registered_def ok_def getDebugPort_def new_connection_def)

text \<open>
  Against C8 as stated: a new ExtensionHost handshake on a fresh dispatcher succeeds and
  registers its connection, and these are all its effects; no client-connected event is
  among them.
\<close>

theorem connect_extension_host_counterexample:
  "connect None (sample_request ExtensionHost) (sample_protocol ''n'' False) new_Vscode
     = (Inr (),
        [LogDebugNewConnection ''n'', SendMessage (DebugPortMessage None), ReadEntireBuffer],
        \<lparr>connections = [ExtensionHost \<mapsto> [(''n'', ExtensionHostConnection (Some ''en'') ''n'')]]\<rparr>)"
  by (simp add: connect_def sample_request_def sample_protocol_def new_Vscode_def Let_def
        is_session_type_def registered_def has_def version_warning_def ok_def getDebugPort_def
        new_connection_def disposeOldOfflineConnections_def offline_connections_def
        ExtensionHostConnection_def maxExtraOfflineConnections_def)

subsection \<open>Retention of offline connections\<close>

text \<open>
  C9. \<open>maxExtraOfflineConnections\<close> is the constant 0, and after a new Management or
  ExtensionHost registration \<^verbatim>\<open>dispose()\<close> has been called on every connection of that
  type whose offline marker is set: the disposed tokens are those of the offline
  connections of the table after the registration.
\<close>

theorem new_registration_disposes_offline:
  assumes "is_session_type (desiredConnectionType message)"
      and "\<not> reconnection protocol"
      and "\<not> has (registered s (desiredConnectionType message)) (reconnectionToken protocol)"
  shows "maxExtraOfflineConnections = 0
       \<and> disposed (fst (snd (connect pc message protocol s)))
           = map token (offline_connections
               (registered (snd (snd (connect pc message protocol s)))
                  (desiredConnectionType message)))
       \<and> (\<forall>c \<in> set (map snd (registered (snd (snd (connect pc message protocol s)))
                          (desiredConnectionType message))).
            offline c \<noteq> None
            \<longrightarrow> ConnectionDispose (token c) \<in> set (fst (snd (connect pc message protocol s))))"
proof -
  let ?t = "desiredConnectionType message"
  let ?conns = "AList.update (reconnectionToken protocol) (new_connection message protocol)
                  (registered s ?t)"
  have eff: "fst (snd (connect pc message protocol s)) =
      version_warning pc message
        @ [LogDebugNewConnection (reconnectionToken protocol), SendMessage (ok ?t)]
        @ (if ?t = Management
           then [FireDidClientConnect (reconnectionToken protocol)] else [ReadEntireBuffer])
        @ disposeOldOfflineConnections ?conns"
    using assms by (simp add: connect_new)
  have st: "registered (snd (snd (connect pc message protocol s))) ?t = ?conns"
    using assms by (simp add: connect_new registered_set)
  have d: "disposed (fst (snd (connect pc message protocol s))) = map token (offline_connections ?conns)"
    by (simp add: eff disposed_append disposed_version_warning disposed_disposeOld
          disposed_Nil disposed_Cons maxExtraOfflineConnections_def)
  have m: "ConnectionDispose (token c) \<in> set (fst (snd (connect pc message protocol s)))"
    if "c \<in> set (map snd ?conns)" "offline c \<noteq> None" for c
  proof -
    have "c \<in> set (offline_connections ?conns)"
      using that by (simp add: offline_connections_def)
    then have "ConnectionDispose (token c) \<in> set (disposeOldOfflineConnections ?conns)"
      by (auto simp add: disposeOld_take maxExtraOfflineConnections_def dispose_one_def)
    then show ?thesis by (simp add: eff)
  qed
  show ?thesis using d m st by (simp add: maxExtraOfflineConnections_def)
qed

theorem new_registration_disposes_offline_witness:
  "is_session_type (desiredConnectionType (sample_request Management))
   \<and> \<not> reconnection (sample_protocol ''n'' False)
   \<and> \<not> has (registered sample_Vscode Management) ''n''
   \<and> sample_connection ''a'' (Some 10)
        \<in> set (map snd (registered (snd (snd (connect None (sample_request Management)
                  (sample_protocol ''n'' False) sample_Vscode))) Management))
   \<and> offline (sample_connection ''a'' (Some 10)) \<noteq> None
   \<and> ConnectionDispose (token (sample_connection ''a'' (Some 10)))
        \<in> set (fst (snd (connect None (sample_request Management)
                  (sample_protocol ''n'' False) sample_Vscode)))
   \<and> disposed (fst (snd (connect None (sample_request Management)
                  (sample_protocol ''n'' False) sample_Vscode))) = [''a'', ''b'']"
  using new_registration_disposes_offline [of "sample_request Management"
          "sample_protocol ''n'' False" sample_Vscode None]
  by (simp add: sample_connect registered_def disposed_Nil disposed_Cons)
     (simp add: sample_Vscode_def sample_table_def sample_connection_def has_def
        is_session_type_def sample_request_def sample_protocol_def)

lemma set_update_table:
  "set (AList.update k v al) \<subseteq> insert (k, v) (set al)"
  by (induction al) auto

lemma map_of_filter_keys:
  "map_of (filter (\<lambda>(k, c). k \<notin> A) al) k' = (if k' \<in> A then None else map_of al k')"
  by (induction al) auto

lemma registered_other:
  "t \<noteq> u \<Longrightarrow> registered (s\<lparr>connections := (connections s)(u \<mapsto> conns)\<rparr>) t = registered s t"
  by (simp add: registered_def)

lemma keyed_update:
  "list_all (\<lambda>(k, c). token c = k) conns \<Longrightarrow> token v = tok \<Longrightarrow>
   list_all (\<lambda>(k, c). token c = k) (AList.update tok v conns)"
  by (induction conns) auto

lemma keyed_connect:
  assumes k: "keyed_by_token s t"
  shows "keyed_by_token (snd (snd (connect pc message protocol s))) t"
proof (cases "is_session_type (desiredConnectionType message)")
  case False
  then have "snd (snd (connect pc message protocol s)) = s"
    by (simp add: connect_def Let_def)
  then show ?thesis using k by simp
next
  case True
  let ?u = "desiredConnectionType message"
  let ?tok = "reconnectionToken protocol"
  have ku: "list_all (\<lambda>(k, c). token c = k) (registered s ?u)" if "t = ?u"
    using k that by (simp add: keyed_by_token_def)
  show ?thesis
  proof (cases "reconnection protocol = has (registered s ?u) ?tok")
    case False
    then show ?thesis
      using True k by (simp add: connect_rejected keyed_by_token_def registered_touch)
  next
    case same: True
    show ?thesis
    proof (cases "reconnection protocol")
      case True
      with same \<open>is_session_type ?u\<close>
      have "snd (snd (connect pc message protocol s))
          = s\<lparr>connections := (connections s)
               (?u \<mapsto> map (\<lambda>(k, c). if k = ?tok then (k, reconnect c) else (k, c))
                         (registered s ?u))\<rparr>"
        by (simp add: connect_def Let_def)
      moreover have "list_all (\<lambda>(k, c). token c = k)
          (map (\<lambda>(k, c). if k = ?tok then (k, reconnect c) else (k, c)) (registered s ?u))"
        if "t = ?u"
        using ku [OF that] by (auto simp add: list_all_iff reconnect_def split: if_splits)
      ultimately show ?thesis
        using k by (cases "t = ?u")
          (simp_all add: keyed_by_token_def registered_set registered_other)
    next
      case False
      with same \<open>is_session_type ?u\<close>
      have st: "snd (snd (connect pc message protocol s))
          = s\<lparr>connections := (connections s)
               (?u \<mapsto> AList.update ?tok (new_connection message protocol) (registered s ?u))\<rparr>"
        by (simp add: connect_new)
      have tok: "token (new_connection message protocol) = ?tok"
        by (simp add: new_connection_def ManagementConnection_def ExtensionHostConnection_def)
      have "list_all (\<lambda>(k, c). token c = k)
          (AList.update ?tok (new_connection message protocol) (registered s ?u))"
        if "t = ?u"
        using keyed_update [OF ku [OF that] tok] .
      then show ?thesis
        using k by (cases "t = ?u")
          (simp_all add: st keyed_by_token_def registered_set registered_other)
    qed
  qed
qed

lemma keyed_onClose: "keyed_by_token s t \<Longrightarrow> keyed_by_token (snd (onClose u tok s)) t"
  by (auto simp add: onClose_def keyed_by_token_def registered_def list_all_iff AList.delete_eq
        split: option.splits)

lemma keyed_socketClosed: "keyed_by_token s t \<Longrightarrow> keyed_by_token (socketClosed u tok now s) t"
  by (auto simp add: socketClosed_def keyed_by_token_def registered_def list_all_iff
        split: option.splits if_splits)

lemma keyed_dispatch: "keyed_by_token s t \<Longrightarrow> keyed_by_token (dispatch e s) t"
  by (cases e) (simp_all add: keyed_connect keyed_onClose keyed_socketClosed)

lemma keyed_dispatched: "keyed_by_token s t \<Longrightarrow> keyed_by_token (dispatched es s) t"
  by (induction es arbitrary: s) (simp_all add: keyed_dispatch)

lemma keyed_new: "keyed_by_token new_Vscode t"
  by (simp add: keyed_by_token_def registered_def new_Vscode_def)

lemma registered_onClose:
  "registered (snd (onClose t tok s)) t = AList.delete tok (registered s t)"
  by (simp add: onClose_def registered_def split: option.splits)

lemma registered_close_disposed:
  "registered (close_disposed t toks s) t
     = filter (\<lambda>(k, c). k \<notin> set toks) (registered s t)"
proof (induction toks arbitrary: s)
  case Nil
  then show ?case by (simp add: close_disposed_def)
next
  case (Cons tok toks)
  have "registered (close_disposed t (tok # toks) s) t
      = registered (close_disposed t toks (snd (onClose t tok s))) t"
    by (simp add: close_disposed_def)
  also have "\<dots> = filter (\<lambda>(k, c). k \<notin> set toks) (AList.delete tok (registered s t))"
    by (simp add: Cons.IH registered_onClose)
  also have "\<dots> = filter (\<lambda>(k, c). k \<notin> set (tok # toks)) (registered s t)"
    by (auto simp add: AList.delete_eq intro: filter_cong)
  finally show ?case .
qed

lemma no_offline_left:
  assumes "list_all (\<lambda>(k, c). token c = k) conns"
  shows "offline_connections
           (filter (\<lambda>(k, c). k \<notin> set (map token (offline_connections conns))) conns) = []"
proof -
  have "\<not> (offline c \<noteq> None \<and> k \<notin> token ` set (offline_connections conns))"
    if "(k, c) \<in> set conns" for k c
  proof
    assume a: "offline c \<noteq> None \<and> k \<notin> token ` set (offline_connections conns)"
    have "c \<in> set (offline_connections conns)"
      using that a by (force simp add: offline_connections_def)
    moreover have "token c = k" using assms that by (auto simp add: list_all_iff)
    ultimately show False using a by blast
  qed
  then show ?thesis
    by (auto simp add: offline_connections_def filter_empty_conv)
qed

lemma disposed_spec:
  "disposed (disposeOldOfflineConnections_spec keep conns)
     = map token (take (length (offline_connections conns) - keep)
                    (sort_key offline_time (offline_connections conns)))"
  by (simp add: disposeOldOfflineConnections_spec_def disposed_dispose_all)

text \<open>
  C4. For a dispatcher in any state it can reach, after a new registration of type
  Management or ExtensionHost: the offline connections of that type that are disposed are
  those that a scan sorted oldest first by the time of disconnection disposes when it
  spares the newest \<open>maxExtraOfflineConnections\<close>; and once the disposals have taken
  effect, the offline connections of the type number at most
  \<open>maxExtraOfflineConnections\<close>, however many there were before, while the new
  connection is still registered.
\<close>

theorem new_registration_retention:
  assumes "s = dispatched evs new_Vscode"
      and "is_session_type (desiredConnectionType message)"
      and "\<not> reconnection protocol"
      and "\<not> has (registered s (desiredConnectionType message)) (reconnectionToken protocol)"
  shows "mset (disposed (fst (snd (connect pc message protocol s))))
           = mset (disposed (disposeOldOfflineConnections_spec maxExtraOfflineConnections
               (registered (snd (snd (connect pc message protocol s)))
                  (desiredConnectionType message))))
       \<and> length (offline_connections
                  (registered (after_registration pc message protocol s)
                     (desiredConnectionType message)))
           \<le> maxExtraOfflineConnections
       \<and> map_of (registered (after_registration pc message protocol s)
                   (desiredConnectionType message)) (reconnectionToken protocol)
           = Some (new_connection message protocol)"
proof -
  let ?t = "desiredConnectionType message"
  let ?tok = "reconnectionToken protocol"
  let ?conns = "AList.update ?tok (new_connection message protocol) (registered s ?t)"
  have st: "registered (snd (snd (connect pc message protocol s))) ?t = ?conns"
    using assms(2-4) by (simp add: connect_new registered_set)
  have "disposed (fst (snd (connect pc message protocol s)))
          = disposed (disposeOldOfflineConnections ?conns)"
    using assms(2-4)
    by (simp add: connect_new disposed_append disposed_version_warning disposed_Nil
          disposed_Cons)
  then have d: "disposed (fst (snd (connect pc message protocol s)))
          = map token (offline_connections ?conns)"
    by (simp add: disposed_disposeOld maxExtraOfflineConnections_def)
  have same: "mset (disposed (fst (snd (connect pc message protocol s))))
      = mset (disposed (disposeOldOfflineConnections_spec maxExtraOfflineConnections ?conns))"
    by (simp add: d disposed_spec maxExtraOfflineConnections_def)
  have "keyed_by_token s ?t"
    using assms(1) by (simp add: keyed_dispatched keyed_new)
  then have "keyed_by_token (snd (snd (connect pc message protocol s))) ?t"
    by (rule keyed_connect)
  then have keyed: "list_all (\<lambda>(k, c). token c = k) ?conns"
    by (simp add: keyed_by_token_def st)
  have after: "registered (after_registration pc message protocol s) ?t
      = filter (\<lambda>(k, c). k \<notin> set (map token (offline_connections ?conns))) ?conns"
    by (simp add: after_registration_def registered_close_disposed st d)
  have none: "offline_connections (registered (after_registration pc message protocol s) ?t) = []"
    unfolding after by (rule no_offline_left [OF keyed])
  have fresh: "?tok \<notin> fst ` set (registered s ?t)"
    using assms(4) by (simp add: has_def map_of_eq_None_iff)
  have online: "offline (new_connection message protocol) = None"
    by (simp add: new_connection_def ManagementConnection_def ExtensionHostConnection_def)
  have "?tok \<notin> set (map token (offline_connections ?conns))"
  proof
    assume "?tok \<in> set (map token (offline_connections ?conns))"
    then obtain k c where kc: "(k, c) \<in> set ?conns" "offline c \<noteq> None" "token c = ?tok"
      by (auto simp add: offline_connections_def)
    have "k = ?tok" using keyed kc(1,3) by (auto simp add: list_all_iff)
    moreover have "set ?conns \<subseteq> insert (?tok, new_connection message protocol)
                                  (set (registered s ?t))"
      by (rule set_update_table)
    ultimately have "c = new_connection message protocol"
      using kc(1) fresh by force
    then show False using kc(2) online by simp
  qed
  then have kept: "map_of (registered (after_registration pc message protocol s) ?t) ?tok
      = Some (new_connection message protocol)"
    unfolding after by (simp add: map_of_filter_keys map_of_update_same)
  show ?thesis using same none kept by (simp add: st)
qed

lemma sample_first:
  "tok \<notin> fst ` set conns \<Longrightarrow>
   snd (snd (connect None (sample_request Management) (sample_protocol tok False)
               \<lparr>connections = [Management \<mapsto> conns]\<rparr>))
     = \<lparr>connections = [Management \<mapsto> conns @ [(tok, ManagementConnection tok)]]\<rparr>"
proof -
  assume fresh: "tok \<notin> fst ` set conns"
  then have upd: "AList.update tok v conns = conns @ [(tok, v)]" for v
    by (induction conns) auto
  have "\<not> has (registered \<lparr>connections = [Management \<mapsto> conns]\<rparr>
                 (desiredConnectionType (sample_request Management)))
              (reconnectionToken (sample_protocol tok False))"
    using fresh
    by (simp add: has_def registered_def sample_request_def sample_protocol_def
          map_of_eq_None_iff)
  from connect_new [OF sample_is_new(1) sample_is_new(2) this, of None]
  show ?thesis
    by (simp add: sample_request_def sample_protocol_def registered_def new_connection_def upd)
qed

lemma sample_reachable:
  "sample_Vscode = dispatched sample_events new_Vscode"
proof -
  have "snd (snd (connect None (sample_request Management) (sample_protocol ''a'' False)
                    new_Vscode))
      = \<lparr>connections = [Management \<mapsto> [(''a'', ManagementConnection ''a'')]]\<rparr>"
    by (simp add: connect_def Let_def is_session_type_def sample_request_def
          sample_protocol_def new_Vscode_def registered_def has_def new_connection_def)
  then show ?thesis
    by (simp add: sample_events_def sample_first socketClosed_def sample_Vscode_def
          sample_table_def sample_connection_def ManagementConnection_def)
qed

theorem new_registration_retention_witness:
  "sample_Vscode = dispatched sample_events new_Vscode
   \<and> is_session_type (desiredConnectionType (sample_request Management))
   \<and> \<not> reconnection (sample_protocol ''n'' False)
   \<and> \<not> has (registered sample_Vscode Management) ''n''
   \<and> offline_connections (registered sample_Vscode Management)
       = [sample_connection ''a'' (Some 10), sample_connection ''b'' (Some 5)]
   \<and> disposed (fst (snd (connect None (sample_request Management)
          (sample_protocol ''n'' False) sample_Vscode))) = [''a'', ''b'']
   \<and> disposed (disposeOldOfflineConnections_spec maxExtraOfflineConnections
        (registered (snd (snd (connect None (sample_request Management)
           (sample_protocol ''n'' False) sample_Vscode))) Management)) = [''b'', ''a'']
   \<and> registered (after_registration None (sample_request Management)
          (sample_protocol ''n'' False) sample_Vscode) Management
       = [(''c'', sample_connection ''c'' None), (''n'', ManagementConnection ''n'')]"
  using new_registration_retention [OF sample_reachable, of "sample_request Management"
          "sample_protocol ''n'' False" None]
  by (simp add: sample_reachable [symmetric] sample_connect registered_def sample_offline
        disposed_Nil disposed_Cons disposed_spec offline_time_def after_registration_def
        close_disposed_def onClose_def maxExtraOfflineConnections_def)
     (simp add: sample_Vscode_def sample_table_def sample_connection_def has_def
        is_session_type_def sample_request_def sample_protocol_def offline_connections_def
        ManagementConnection_def new_connection_def)

section \<open>Properties of persistent terminal processes\<close>

subsection \<open>What no event changes\<close>

lemmas pty_defs = attach_def detach_def shutdown_def start_def triggerReplay_def input_def
  resize_def acknowledgeDataEvent_def sendCommandResult_def orphanQuestionReply_def
  reduceGraceTime_def barrier_timeout_def

lemma run_queued_armed:
  "isScheduled (disconnectRunner1 s) \<or> isScheduled (disconnectRunner2 s) \<Longrightarrow>
   run_queued now ks s
     = (map (\<lambda>q. IsOrphanedResolved q True) ks, s\<lparr>orphanRequestQueue := []\<rparr>)"
  by (induction ks) (simp_all add: isOrphaned_suspend_def)

lemma run_queued_open:
  "\<not> isScheduled (disconnectRunner1 s) \<Longrightarrow> \<not> isScheduled (disconnectRunner2 s) \<Longrightarrow>
   orphanQuestionBarrier s = Some b \<Longrightarrow> isOpen b \<Longrightarrow>
   run_queued now ks s
     = (map (\<lambda>q. IsOrphanedResolved q (isOrphaned_resume now s)) ks,
        s\<lparr>orphanRequestQueue := []\<rparr>)"
  by (induction ks) (simp_all add: isOrphaned_suspend_def)

lemma run_queued_fresh:
  "\<not> isScheduled (disconnectRunner1 s) \<and> \<not> isScheduled (disconnectRunner2 s)
     \<and> orphanQuestionBarrier s = None \<Longrightarrow>
   run_queued now (q # ks) s
     = ([], s\<lparr>orphanQuestionBarrier := Some (new_AutoOpenBarrier 4000),
               orphanQuestionReplyTime := 0, orphanRequestQueue := q # ks\<rparr>)"
  by (simp add: isOrphaned_suspend_def new_AutoOpenBarrier_def)

lemma run_queued_closed:
  "\<not> isScheduled (disconnectRunner1 s) \<Longrightarrow> \<not> isScheduled (disconnectRunner2 s) \<Longrightarrow>
   orphanQuestionBarrier s = Some b \<Longrightarrow> \<not> isOpen b \<Longrightarrow>
   run_queued now (q # ks) s = ([], s\<lparr>orphanRequestQueue := q # ks\<rparr>)"
  by (simp add: isOrphaned_suspend_def)

declare run_queued.simps [simp del]

lemma run_queued_cases:
  "snd (run_queued now ks s) = s\<lparr>orphanRequestQueue := []\<rparr>
   \<or> ks \<noteq> [] \<and> snd (run_queued now ks s) = s\<lparr>orphanRequestQueue := ks\<rparr>
   \<or> ks \<noteq> [] \<and> snd (run_queued now ks s)
         = s\<lparr>orphanQuestionBarrier := Some (new_AutoOpenBarrier 4000),
             orphanQuestionReplyTime := 0, orphanRequestQueue := ks\<rparr>"
proof (cases ks)
  case Nil
  then show ?thesis by (simp add: run_queued.simps)
next
  case (Cons q qs)
  show ?thesis
  proof (cases "isScheduled (disconnectRunner1 s) \<or> isScheduled (disconnectRunner2 s)")
    case True
    then show ?thesis by (simp add: run_queued_armed)
  next
    case False
    show ?thesis
    proof (cases "orphanQuestionBarrier s")
      case None
      then show ?thesis using False Cons by (simp add: run_queued_fresh)
    next
      case (Some b)
      then show ?thesis
        using False Cons
        by (cases "isOpen b") (simp_all add: run_queued_open run_queued_closed)
    qed
  qed
qed

lemma run_queued_inReplay: "inReplay (snd (run_queued now ks s)) = inReplay s"
  using run_queued_cases [of now ks s] by auto

lemma run_queued_isStarted: "isStarted (snd (run_queued now ks s)) = isStarted s"
  using run_queued_cases [of now ks s] by auto

lemma step_inReplay: "inReplay (snd (step e s)) = inReplay s"
  by (cases e)
     (simp_all add: pty_defs isOrphaned_def isOrphaned_wait_over_def run_queued_inReplay
        Let_def split: option.splits list.splits)

lemma after_inReplay: "inReplay (after es s) = inReplay s"
  by (induction es arbitrary: s) (simp_all add: step_inReplay)

lemma new_inReplay: "inReplay (new_PersistentTerminalProcess i tp w n p c r) = False"
  by (simp add: new_PersistentTerminalProcess_def)

lemma step_isStarted: "isStarted s \<Longrightarrow> isStarted (snd (step e s))"
  by (cases e)
     (simp_all add: pty_defs isOrphaned_def isOrphaned_wait_over_def run_queued_isStarted
        Let_def split: option.splits list.splits)

lemma after_isStarted: "isStarted s \<Longrightarrow> isStarted (after es s)"
  by (induction es arbitrary: s) (simp_all add: step_isStarted)









text \<open>
  C10. From its construction on, whatever happens to a persistent terminal process, the
  \<open>inReplay\<close> flag is false: no event changes it. So \<open>input\<close>, \<open>resize\<close> and
  \<open>acknowledgeDataEvent\<close> always forward to the underlying terminal process, and the
  branch that drops them is never taken.
\<close>

theorem inReplay_never_set:
  "\<not> inReplay (after es (new_PersistentTerminalProcess i tp w n p c r))
   \<and> input d (after es (new_PersistentTerminalProcess i tp w n p c r))
       = ([TerminalInput d], after es (new_PersistentTerminalProcess i tp w n p c r))
   \<and> fst (resize c' r' (after es (new_PersistentTerminalProcess i tp w n p c r)))
       = [TerminalResize c' r']
   \<and> acknowledgeDataEvent k (after es (new_PersistentTerminalProcess i tp w n p c r))
       = ([TerminalAcknowledgeDataEvent k],
          after es (new_PersistentTerminalProcess i tp w n p c r))
   \<and> inReplay (snd (step e s)) = inReplay s"
  by (simp add: after_inReplay new_inReplay step_inReplay input_def resize_def
        acknowledgeDataEvent_def)

subsection \<open>Starting\<close>

text \<open>
  C3. A first \<open>start\<close> launches the underlying process and resolves to what the launch
  resolves to, a launch error when the spawn fails; the process counts as started exactly
  when there was none. After a successful first start, whatever happens in between, every
  further \<open>start\<close> launches nothing, fires the ready and title events, replays the
  recorded buffer and resolves to no error, leaving the process as it was.
\<close>

theorem start_idempotent:
  "(\<not> isStarted s \<longrightarrow>
      fst (snd (start s)) = [TerminalStart]
      \<and> fst (start s) = startResult (terminalProcess s)
      \<and> isStarted (snd (snd (start s))) = (startResult (terminalProcess s) = None))
   \<and> (\<not> isStarted s \<and> startResult (terminalProcess s) = None \<longrightarrow>
      (\<forall>es. fst (start (after es (snd (snd (start s))))) = None
            \<and> TerminalStart \<notin> set (fst (snd (start (after es (snd (snd (start s)))))))
            \<and> fst (snd (start (after es (snd (snd (start s))))))
                = [FireProcessReady (pid (after es (snd (snd (start s)))))
                     (cwd (after es (snd (snd (start s))))),
                   FireProcessTitleChanged
                     (currentTitle (terminalProcess (after es (snd (snd (start s))))))]
                  @ fst (triggerReplay (after es (snd (snd (start s)))))
            \<and> FireProcessReplay (generateReplayEvent (recorder (after es (snd (snd (start s))))))
                \<in> set (fst (triggerReplay (after es (snd (snd (start s))))))
            \<and> snd (snd (start (after es (snd (snd (start s))))))
                = after es (snd (snd (start s)))))"
proof -
  have first: "\<not> isStarted s \<Longrightarrow>
      fst (snd (start s)) = [TerminalStart]
      \<and> fst (start s) = startResult (terminalProcess s)
      \<and> isStarted (snd (snd (start s))) = (startResult (terminalProcess s) = None)"
    by (simp add: start_def split: option.splits)
  have later: "isStarted t \<Longrightarrow>
      fst (start t) = None
      \<and> TerminalStart \<notin> set (fst (snd (start t)))
      \<and> fst (snd (start t))
           = [FireProcessReady (pid t) (cwd t),
              FireProcessTitleChanged (currentTitle (terminalProcess t))]
             @ fst (triggerReplay t)
      \<and> FireProcessReplay (generateReplayEvent (recorder t)) \<in> set (fst (triggerReplay t))
      \<and> snd (snd (start t)) = t" for t
    by (simp add: start_def triggerReplay_def Let_def)
  have started: "\<not> isStarted s \<Longrightarrow> startResult (terminalProcess s) = None \<Longrightarrow>
      isStarted (after es (snd (snd (start s))))" for es
    using first by (simp add: after_isStarted)
  show ?thesis using first later started by blast
qed

theorem start_idempotent_witness:
  "\<not> isStarted (new_PersistentTerminalProcess 3 sample_failing_terminal [] [] True 80 24)
   \<and> fst (start (new_PersistentTerminalProcess 3 sample_failing_terminal [] [] True 80 24))
       = Some (LaunchError ''no shell'')
   \<and> fst (snd (start (new_PersistentTerminalProcess 3 sample_failing_terminal [] [] True 80 24)))
       = [TerminalStart]
   \<and> \<not> isStarted (snd (snd (start
         (new_PersistentTerminalProcess 3 sample_failing_terminal [] [] True 80 24))))
   \<and> \<not> isStarted (sample_pty True)
   \<and> startResult (terminalProcess (sample_pty True)) = None
   \<and> start (sample_pty True) = (None, [TerminalStart], (sample_pty True)\<lparr>isStarted := True\<rparr>)
   \<and> fst (start (after [ProcessData ''hi'', Detach, Attach] (snd (snd (start (sample_pty True))))))
       = None
   \<and> TerminalStart
       \<notin> set (fst (snd (start (after [ProcessData ''hi'', Detach, Attach]
                 (snd (snd (start (sample_pty True))))))))
   \<and> FireProcessReplay [\<lparr>entry_cols = 80, entry_rows = 24, entry_data = ''hi''\<rparr>]
       \<in> set (fst (triggerReplay (after [ProcessData ''hi'', Detach, Attach]
                 (snd (snd (start (sample_pty True)))))))"
  using start_idempotent [of "sample_pty True"]
        start_idempotent
          [of "new_PersistentTerminalProcess 3 sample_failing_terminal [] [] True 80 24"]
  by (simp add: sample_pty_def sample_terminal_def sample_failing_terminal_def
        new_PersistentTerminalProcess_def start_def
        attach_def detach_def triggerReplay_def generateReplayEvent_def recordData_def
        new_TerminalRecorder_def schedule_def cancel_def Let_def)

subsection \<open>Attaching and detaching\<close>

text \<open>
  C5. \<open>attach\<close> cancels the long grace timer. \<open>detach\<close> arms it when the process
  should persist; otherwise it shuts the process down at once and arms nothing.
\<close>

theorem attach_detach_grace_timer:
  "attach s = ([], s\<lparr>disconnectRunner1 := cancel (disconnectRunner1 s)\<rparr>)
   \<and> \<not> isScheduled (disconnectRunner1 (snd (attach s)))
   \<and> (shouldPersistTerminal s \<longrightarrow>
        fst (detach s) = [] \<and> isScheduled (disconnectRunner1 (snd (detach s))))
   \<and> (\<not> shouldPersistTerminal s \<longrightarrow> detach s = ([TerminalShutdown True], s))"
  by (simp add: attach_def detach_def shutdown_def cancel_def schedule_def isScheduled_def)

theorem attach_detach_grace_timer_witness:
  "shouldPersistTerminal (sample_pty True)
   \<and> fst (detach (sample_pty True)) = []
   \<and> isScheduled (disconnectRunner1 (snd (detach (sample_pty True))))
   \<and> \<not> isScheduled (disconnectRunner1 (snd (attach (snd (detach (sample_pty True))))))
   \<and> \<not> shouldPersistTerminal (sample_pty False)
   \<and> detach (sample_pty False) = ([TerminalShutdown True], sample_pty False)"
  using attach_detach_grace_timer [of "sample_pty True"]
        attach_detach_grace_timer [of "snd (detach (sample_pty True))"]
        attach_detach_grace_timer [of "sample_pty False"]
  by (simp add: sample_pty_def new_PersistentTerminalProcess_def attach_def detach_def
        shutdown_def cancel_def schedule_def isScheduled_def)

subsection \<open>The orphan check\<close>











section \<open>Properties of the registry\<close>

subsection \<open>Unknown process ids\<close>

text \<open>
  C6, as the code has it. For an id that is not in the registry, \<open>detachFromProcess\<close>,
  \<open>start\<close>, \<open>input\<close> and \<open>resize\<close> reject with \<open>UnknownProcess\<close> and change nothing;
  \<open>attachToProcess\<close> catches that error, logs it and resolves normally.
\<close>

theorem unknown_process_operations:
  assumes "ptys svc ident = None"
  shows "detachFromProcess ident svc = (Inl (UnknownProcess ident), [], svc)
       \<and> PtyService_start ident svc = (Inl (UnknownProcess ident), [], svc)
       \<and> PtyService_input ident d svc = (Inl (UnknownProcess ident), [], svc)
       \<and> PtyService_resize ident c r svc = (Inl (UnknownProcess ident), [], svc)
       \<and> attachToProcess ident svc
           = (Inr (), [LogTraceReconnectionFailed ident (UnknownProcess ident)], svc)"
  using assms
  by (simp add: detachFromProcess_def PtyService_start_def PtyService_input_def
        PtyService_resize_def attachToProcess_def throwIfNoPty_def)

theorem unknown_process_operations_witness:
  "ptys sample_PtyService 2 = None
   \<and> detachFromProcess 2 sample_PtyService = (Inl (UnknownProcess 2), [], sample_PtyService)
   \<and> PtyService_start 2 sample_PtyService = (Inl (UnknownProcess 2), [], sample_PtyService)
   \<and> PtyService_input 2 ''ls'' sample_PtyService
       = (Inl (UnknownProcess 2), [], sample_PtyService)
   \<and> PtyService_resize 2 80 24 sample_PtyService
       = (Inl (UnknownProcess 2), [], sample_PtyService)
   \<and> attachToProcess 2 sample_PtyService
       = (Inr (), [LogTraceReconnectionFailed 2 (UnknownProcess 2)], sample_PtyService)"
  using unknown_process_operations [of sample_PtyService 2 "''ls''" 80 24]
  by (simp add: sample_PtyService_def)

text \<open>
  Against C6 as stated: attaching to an id that is not in the registry does not fail.
\<close>

theorem attach_unknown_process_counterexample:
  "ptys sample_PtyService 2 = None
   \<and> fst (attachToProcess 2 sample_PtyService) = Inr ()"
  by (simp add: sample_PtyService_def attachToProcess_def throwIfNoPty_def)

subsection \<open>Expanding a stored layout\<close>

lemma expandTerminalInstance_dead:
  "ptys svc (terminal t) = None \<Longrightarrow>
   expandTerminalInstance orphaned t svc
     = ([LogTraceLayoutFailed (UnknownProcess (terminal t))],
        \<lparr>terminal = None, relativeSize = relativeSize t\<rparr>)"
  by (simp add: expandTerminalInstance_def throwIfNoPty_def)

lemma not_null_expand_ids:
  "map (\<lambda>term. dto_id (terminal term)) (not_null (snd (expandTerminalInstance orphaned t svc)))
     = (if live svc (terminal t) then [terminal t] else [])"
  by (auto simp add: expandTerminalInstance_def throwIfNoPty_def terminalToDto_def live_def
        not_null_def split: option.splits)

lemma expandTerminalTab_ids:
  "map (\<lambda>term. dto_id (terminal term)) (terminals (snd (expandTerminalTab orphaned tab svc)))
     = filter (live svc) (map terminal (terminals tab))"
proof -
  have "map (\<lambda>term. dto_id (terminal term))
          (concat (map (\<lambda>x. not_null (snd x))
             (map (\<lambda>t. expandTerminalInstance orphaned t svc) ts)))
        = filter (live svc) (map terminal ts)" for ts
    by (induction ts) (simp_all add: not_null_expand_ids)
  then show ?thesis by (simp add: expandTerminalTab_def Let_def)
qed

lemma expandTerminalTab_empty:
  "(terminals (snd (expandTerminalTab orphaned tab svc)) = [])
     = (\<forall>t \<in> set (terminals tab). \<not> live svc (terminal t))"
proof -
  have "(terminals (snd (expandTerminalTab orphaned tab svc)) = [])
      = (map (\<lambda>term. dto_id (terminal term))
           (terminals (snd (expandTerminalTab orphaned tab svc))) = [])"
    by simp
  also have "\<dots> = (filter (live svc) (map terminal (terminals tab)) = [])"
    by (simp only: expandTerminalTab_ids)
  also have "\<dots> = (\<forall>t \<in> set (terminals tab). \<not> live svc (terminal t))"
    by (auto simp add: filter_empty_conv)
  finally show ?thesis .
qed

text \<open>
  C7, as the code has it. For a workspace with a stored layout the call does not fail: it
  returns the expanded tabs that have a terminal left. The terminal list of an expanded
  tab holds, in the stored order, the descriptors of the live references only; a
  reference whose process is gone is expanded to a \<^verbatim>\<open>null\<close> placeholder, which the tab's
  filter then removes. A tab is dropped exactly when none of its references is live.
\<close>

theorem getTerminalLayoutInfo_expansion:
  assumes "workspaceLayoutInfos svc wsId = Some layout"
  shows "snd (getTerminalLayoutInfo orphaned wsId svc)
           = Some \<lparr>tabs = filter (\<lambda>t. terminals t \<noteq> [])
                      (map (\<lambda>tab. snd (expandTerminalTab orphaned tab svc)) (args_tabs layout))\<rparr>
       \<and> (\<forall>tab. map (\<lambda>term. dto_id (terminal term))
                   (terminals (snd (expandTerminalTab orphaned tab svc)))
                 = filter (live svc) (map terminal (terminals tab)))
       \<and> (\<forall>tab. (terminals (snd (expandTerminalTab orphaned tab svc)) = [])
                 = (\<forall>t \<in> set (terminals tab). \<not> live svc (terminal t)))
       \<and> (\<forall>t. ptys svc (terminal t) = None \<longrightarrow>
                snd (expandTerminalInstance orphaned t svc)
                  = \<lparr>terminal = None, relativeSize = relativeSize t\<rparr>
                \<and> \<not> live svc (terminal t))"
proof -
  have res: "snd (getTerminalLayoutInfo orphaned wsId svc)
           = Some \<lparr>tabs = filter (\<lambda>t. terminals t \<noteq> [])
                      (map (\<lambda>tab. snd (expandTerminalTab orphaned tab svc)) (args_tabs layout))\<rparr>"
    using assms by (simp add: getTerminalLayoutInfo_def Let_def comp_def)
  have dead: "ptys svc (terminal t) = None \<Longrightarrow> \<not> live svc (terminal t)"
    for t :: "(nat, 'a) IRawTerminalInstanceLayoutInfo"
    by (simp add: live_def)
  show ?thesis
  proof (intro conjI allI impI)
    show "snd (getTerminalLayoutInfo orphaned wsId svc)
           = Some \<lparr>tabs = filter (\<lambda>t. terminals t \<noteq> [])
                      (map (\<lambda>tab. snd (expandTerminalTab orphaned tab svc)) (args_tabs layout))\<rparr>"
      by (rule res)
  qed (simp_all only: expandTerminalTab_ids expandTerminalTab_empty dead
         expandTerminalInstance_dead snd_conv not_False_eq_True)
qed

lemma sample_layout:
  "getTerminalLayoutInfo sample_orphaned ''ws'' sample_PtyService
     = ([LogTraceLayoutFailed (UnknownProcess 2)],
        Some \<lparr>tabs =
          [\<lparr>isActive = True, activePersistentTerminalId = Some 1,
            terminals =
              [\<lparr>terminal =
                  \<lparr>dto_id = 1, dto_title = ''bash'', dto_pid = - 1, dto_workspaceId = ''ws'',
                   dto_workspaceName = ''workspace'', dto_cwd = ''/home'',
                   dto_isOrphan = False\<rparr>,
                relativeSize = 1\<rparr>]\<rparr>]\<rparr>)"
  by (simp add: getTerminalLayoutInfo_def sample_PtyService_def sample_tab_def
        expandTerminalTab_def expandTerminalInstance_def throwIfNoPty_def terminalToDto_def
        not_null_def sample_pty_def sample_terminal_def new_PersistentTerminalProcess_def
        sample_orphaned_def Let_def)

theorem getTerminalLayoutInfo_expansion_witness:
  "workspaceLayoutInfos sample_PtyService ''ws''
     = Some \<lparr>args_workspaceId = ''ws'', args_tabs = [sample_tab]\<rparr>
   \<and> ptys sample_PtyService 2 = None
   \<and> map_option listed_ids (snd (getTerminalLayoutInfo sample_orphaned ''ws'' sample_PtyService))
       = Some [[Some 1]]
   \<and> filter (live sample_PtyService) (map terminal (terminals sample_tab)) = [1]
   \<and> snd (expandTerminalInstance sample_orphaned \<lparr>terminal = 2, relativeSize = 1\<rparr>
            sample_PtyService)
       = \<lparr>terminal = None, relativeSize = 1\<rparr>"
  using getTerminalLayoutInfo_expansion [of sample_PtyService "''ws''"
          "\<lparr>args_workspaceId = ''ws'', args_tabs = [sample_tab]\<rparr>" sample_orphaned]
  by (simp add: sample_layout listed_ids_def)
     (simp add: sample_PtyService_def sample_tab_def live_def sample_pty_def
        sample_terminal_def new_PersistentTerminalProcess_def expandTerminalInstance_def
        throwIfNoPty_def)

text \<open>
  Against C7 as stated: for a tab that refers to the live process 1 and to the vanished
  process 2, the returned terminal list has the one entry for 1 and no placeholder, where
  the expansion that keeps placeholders has two.
\<close>

theorem layout_placeholder_counterexample:
  "map_option listed_ids (snd (getTerminalLayoutInfo sample_orphaned ''ws'' sample_PtyService))
     = Some [[Some 1]]
   \<and> map_option listed_ids_spec (getTerminalLayoutInfo_spec sample_orphaned ''ws'' sample_PtyService)
     = Some [[Some 1, None]]"
  by (simp add: sample_layout listed_ids_def)
     (simp add: getTerminalLayoutInfo_spec_def expandTerminalTab_spec_def listed_ids_spec_def
        sample_PtyService_def sample_tab_def expandTerminalInstance_def throwIfNoPty_def
        terminalToDto_def sample_pty_def sample_terminal_def new_PersistentTerminalProcess_def
        sample_orphaned_def)

end
